theory Spec2Isabelle
  imports Main
begin

section \<open>JavaScript values\<close>

text \<open>
  The handlers of \<^verbatim>\<open>server.js\<close> move untyped JavaScript values between the request body,
  the SQLite driver and the response. A value is one of the JSON shapes, or \<^verbatim>\<open>undefined\<close>.
  Numbers are the integral ones; a string is the list of its code units, and the model
  covers code units below 256.
\<close>

datatype jsval =
    JUndefined
  | JNull
  | JBool bool
  | JNum int
  | JStr string
  | JArr "jsval list"
  | JObj "(string \<times> jsval) list"

text \<open>Truthiness, as \<^verbatim>\<open>if (v)\<close>, \<^verbatim>\<open>!v\<close> and \<^verbatim>\<open>v || w\<close> test it.\<close>

fun truthy :: "jsval \<Rightarrow> bool" where
  "truthy JUndefined = False"
| "truthy JNull = False"
| "truthy (JBool b) = b"
| "truthy (JNum n) = (n \<noteq> 0)"
| "truthy (JStr s) = (s \<noteq> [])"
| "truthy (JArr xs) = True"
| "truthy (JObj kvs) = True"

text \<open>\<^verbatim>\<open>typeof v === 'object'\<close> for a value that is not null, and \<^verbatim>\<open>Array.isArray(v)\<close>.\<close>

fun is_object :: "jsval \<Rightarrow> bool" where
  "is_object (JArr xs) = True"
| "is_object (JObj kvs) = True"
| "is_object v = False"

fun isArray :: "jsval \<Rightarrow> bool" where
  "isArray (JArr xs) = True"
| "isArray v = False"

section \<open>Strings: trim and split\<close>

text \<open>
  \<^verbatim>\<open>String.prototype.trim\<close> removes white space and line terminators at both ends: among the
  code units below 256 these are TAB, LF, VT, FF, CR, SPACE and NBSP.
\<close>

definition js_whitespace :: "char \<Rightarrow> bool" where
  "js_whitespace c = (c \<in> set [CHR 0x09, CHR 0x0A, CHR 0x0B, CHR 0x0C, CHR 0x0D, CHR 0x20, CHR 0xA0])"

definition js_trim :: "string \<Rightarrow> string" where
  "js_trim s = rev (dropWhile js_whitespace (rev (dropWhile js_whitespace s)))"

text \<open>
  \<^verbatim>\<open>str.split(/[,\n]/)\<close>: the pieces between the separators, empty pieces included; a string
  with no separator is its own single piece.
\<close>

definition is_delim :: "char \<Rightarrow> bool" where
  "is_delim c = (c = CHR '','' \<or> c = CHR 0x0A)"

fun split_delim :: "string \<Rightarrow> string list" where
  "split_delim [] = [[]]"
| "split_delim (c # cs) =
     (if is_delim c then [] # split_delim cs
      else (c # hd (split_delim cs)) # tl (split_delim cs))"

text \<open>\<^verbatim>\<open>str.split(/[,\n]/).map(s => s.trim()).filter(s => s)\<close>\<close>

definition split_items :: "string \<Rightarrow> string list" where
  "split_items s = filter (\<lambda>t. t \<noteq> []) (map js_trim (split_delim s))"

section \<open>The JSON-field decoder\<close>

text \<open>
  \<^verbatim>\<open>JSON.parse\<close> belongs to the runtime. It is a parameter of the model: \<open>JSON_parse s\<close>
  is \<open>Some v\<close> when the text \<open>s\<close> is JSON for \<open>v\<close>, and \<open>None\<close> when \<^verbatim>\<open>JSON.parse(s)\<close>
  throws a SyntaxError. Applied to a number or a boolean, \<^verbatim>\<open>JSON.parse\<close> first converts
  it to its text, which parses back to the same value.
\<close>

fun JSON_parse_value :: "(string \<Rightarrow> jsval option) \<Rightarrow> jsval \<Rightarrow> jsval option" where
  "JSON_parse_value JSON_parse (JStr s) = JSON_parse s"
| "JSON_parse_value JSON_parse (JNum n) = Some (JNum n)"
| "JSON_parse_value JSON_parse (JBool b) = Some (JBool b)"
| "JSON_parse_value JSON_parse JNull = Some JNull"
| "JSON_parse_value JSON_parse v = None"

text \<open>
  \<^verbatim>\<open>safeJsonParse(str, defaultValue)\<close> of \<^verbatim>\<open>server.js\<close>. The \<^verbatim>\<open>try\<close> block is the first
  three branches; the \<^verbatim>\<open>catch\<close> block is entered exactly when \<^verbatim>\<open>JSON.parse\<close> throws.
  Logging is left out.
\<close>

definition safeJsonParse :: "(string \<Rightarrow> jsval option) \<Rightarrow> jsval \<Rightarrow> jsval \<Rightarrow> jsval" where
  "safeJsonParse JSON_parse str defaultValue =
     (if \<not> truthy str \<or> str = JStr [] \<or> str = JStr ''null'' \<or> str = JStr ''undefined''
      then defaultValue
      else if is_object str then str
      else case JSON_parse_value JSON_parse str of
             Some v \<Rightarrow> v
           | None \<Rightarrow>
               (case str of
                  JStr s \<Rightarrow>
                    if isArray defaultValue then
                      (if CHR '','' \<in> set s \<or> CHR 0x0A \<in> set s
                       then JArr (map JStr (split_items s))
                       else JArr [JStr s])
                    else defaultValue
                | _ \<Rightarrow> defaultValue))"

text \<open>
  A finite part of \<^verbatim>\<open>JSON.parse\<close>, used to run the examples: the JSON texts listed parse to
  the values beside them; every other text that the examples hand to it (\<^verbatim>\<open>a,b,c\<close>,
  \<^verbatim>\<open>single\<close>) is not JSON.
\<close>

definition JSON_parse_examples :: "string \<Rightarrow> jsval option" where
  "JSON_parse_examples =
     map_of [(''[]'', JArr []),
             (''[\"ui\"]'', JArr [JStr ''ui'']),
             (''[\"ui\",\"perf\"]'', JArr [JStr ''ui'', JStr ''perf''])]"

section \<open>JavaScript conversions\<close>

text \<open>\<^verbatim>\<open>a || b\<close>\<close>

definition js_or :: "jsval \<Rightarrow> jsval \<Rightarrow> jsval" where
  "js_or a b = (if truthy a then a else b)"

text \<open>
  \<^verbatim>\<open>a !== b\<close> where one side is read from the database and the other comes from the
  request: primitive values differ when their type or their value differs; an array or an
  object of the request is a fresh object, identical to nothing else.
\<close>

definition strict_neq :: "jsval \<Rightarrow> jsval \<Rightarrow> bool" where
  "strict_neq a b = (is_object a \<or> is_object b \<or> a \<noteq> b)"

text \<open>Decimal text of an integral number.\<close>

fun digits :: "nat \<Rightarrow> string" where
  "digits n = (if n < 10 then [''0123456789'' ! n] else digits (n div 10) @ [''0123456789'' ! (n mod 10)])"

declare digits.simps [simp del]

definition string_of_int :: "int \<Rightarrow> string" where
  "string_of_int i = (if i < 0 then CHR ''-'' # digits (nat (- i)) else digits (nat i))"

fun join :: "string \<Rightarrow> string list \<Rightarrow> string" where
  "join sep [] = []"
| "join sep [x] = x"
| "join sep (x # y # ys) = x @ sep @ join sep (y # ys)"

text \<open>
  \<^verbatim>\<open>String(v)\<close>. An array is the join of its elements by commas, null and undefined
  elements giving the empty text.
\<close>

fun js_String :: "jsval \<Rightarrow> string" where
  "js_String JUndefined = ''undefined''"
| "js_String JNull = ''null''"
| "js_String (JBool b) = (if b then ''true'' else ''false'')"
| "js_String (JNum n) = string_of_int n"
| "js_String (JStr s) = s"
| "js_String (JArr xs) =
     join '','' (map (\<lambda>x. if x = JNull \<or> x = JUndefined then [] else js_String x) xs)"
| "js_String (JObj kvs) = ''[object Object]''"

text \<open>
  \<^verbatim>\<open>JSON.stringify(v)\<close>: the JSON text of \<open>v\<close>, and \<^verbatim>\<open>undefined\<close> for \<^verbatim>\<open>undefined\<close>. Inside an
  array \<^verbatim>\<open>undefined\<close> is written \<^verbatim>\<open>null\<close>; inside an object a member that is \<^verbatim>\<open>undefined\<close>
  is left out.
\<close>

definition hex_digit :: "nat \<Rightarrow> char" where
  "hex_digit n = ''0123456789abcdef'' ! n"

definition json_escape :: "char \<Rightarrow> string" where
  "json_escape c =
     (if c = CHR 0x22 then [CHR 0x5C, CHR 0x22]
      else if c = CHR 0x5C then [CHR 0x5C, CHR 0x5C]
      else if c = CHR 0x08 then [CHR 0x5C, CHR ''b'']
      else if c = CHR 0x0C then [CHR 0x5C, CHR ''f'']
      else if c = CHR 0x0A then [CHR 0x5C, CHR ''n'']
      else if c = CHR 0x0D then [CHR 0x5C, CHR ''r'']
      else if c = CHR 0x09 then [CHR 0x5C, CHR ''t'']
      else if (of_char c :: nat) < 32
        then [CHR 0x5C, CHR ''u'', CHR ''0'', CHR ''0'',
              hex_digit (of_char c div 16), hex_digit (of_char c mod 16)]
      else [c])"

definition json_quote :: "string \<Rightarrow> string" where
  "json_quote s = [CHR 0x22] @ concat (map json_escape s) @ [CHR 0x22]"

fun json_text :: "jsval \<Rightarrow> string option" where
  "json_text JUndefined = None"
| "json_text JNull = Some ''null''"
| "json_text (JBool b) = Some (if b then ''true'' else ''false'')"
| "json_text (JNum n) = Some (string_of_int n)"
| "json_text (JStr s) = Some (json_quote s)"
| "json_text (JArr xs) =
     Some (''['' @ join '','' (map (\<lambda>x. case json_text x of None \<Rightarrow> ''null'' | Some t \<Rightarrow> t) xs) @ '']'')"
| "json_text (JObj kvs) =
     Some (''{'' @ join '',''
        (concat (map (\<lambda>kv. case json_text (snd kv) of
                                None \<Rightarrow> []
                              | Some t \<Rightarrow> [json_quote (fst kv) @ '':'' @ t]) kvs)) @ ''}'')"

definition JSON_stringify :: "jsval \<Rightarrow> jsval" where
  "JSON_stringify v = (case json_text v of None \<Rightarrow> JUndefined | Some t \<Rightarrow> JStr t)"

section \<open>The SQLite store\<close>

text \<open>
  A table is the list of its rows, in rowid order; a row maps the name of a column to
  the stored value, which is null, a number or a text. The request body is the parsed
  JSON object: its members, in the order \<^verbatim>\<open>Object.keys\<close> lists them, with distinct names.
\<close>

type_synonym row = "string \<Rightarrow> jsval"

type_synonym body = "(string \<times> jsval) list"

definition empty_row :: row where
  "empty_row = (\<lambda>c. JNull)"

text \<open>\<^verbatim>\<open>updates[key]\<close>, \<^verbatim>\<open>req.body.key\<close>\<close>

definition get_prop :: "body \<Rightarrow> string \<Rightarrow> jsval" where
  "get_prop b k = (case map_of b k of None \<Rightarrow> JUndefined | Some v \<Rightarrow> v)"

text \<open>\<^verbatim>\<open>delete updates.key\<close>\<close>

definition delete_prop :: "string \<Rightarrow> body \<Rightarrow> body" where
  "delete_prop k b = filter (\<lambda>kv. fst kv \<noteq> k) b"

text \<open>
  What the handler answers: the HTTP status with the text of \<^verbatim>\<open>message\<close> or \<^verbatim>\<open>error\<close>, or
  the row or rows it sends.
\<close>

datatype response = Reply nat string | ReplyRow row | ReplyRows "row list"

text \<open>
  Reading a reply: its HTTP status (200 where the handler sets none), its message, its
  rows; and a column of a list of rows.
\<close>

fun reply_status :: "response \<Rightarrow> nat" where
  "reply_status (Reply st msg) = st"
| "reply_status (ReplyRow r) = 200"
| "reply_status (ReplyRows rs) = 200"

fun reply_text :: "response \<Rightarrow> string" where
  "reply_text (Reply st msg) = msg"
| "reply_text (ReplyRow r) = []"
| "reply_text (ReplyRows rs) = []"

fun reply_rows :: "response \<Rightarrow> row list" where
  "reply_rows (Reply st msg) = []"
| "reply_rows (ReplyRow r) = [r]"
| "reply_rows (ReplyRows rs) = rs"

definition column_values :: "string \<Rightarrow> row list \<Rightarrow> jsval list" where
  "column_values c rows = map (\<lambda>r. r c) rows"

text \<open>
  How the sqlite3 driver binds a JavaScript value to a \<^verbatim>\<open>?\<close>: a boolean as 1 or 0,
  \<^verbatim>\<open>undefined\<close> as NULL, an array or object as its \<^verbatim>\<open>String()\<close> text, anything else as it is.
\<close>

fun bind :: "jsval \<Rightarrow> jsval" where
  "bind JUndefined = JNull"
| "bind (JBool b) = JNum (if b then 1 else 0)"
| "bind (JArr xs) = JStr (js_String (JArr xs))"
| "bind (JObj kvs) = JStr (js_String (JObj kvs))"
| "bind v = v"

text \<open>
  SQL comparison with a bound value: a NULL on either side makes \<^verbatim>\<open>=\<close> and \<^verbatim>\<open>!=\<close>
  both fail to select the row.
\<close>

definition sql_eq :: "jsval \<Rightarrow> jsval \<Rightarrow> bool" where
  "sql_eq a b = (a \<noteq> JNull \<and> b \<noteq> JNull \<and> a = b)"

definition sql_neq :: "jsval \<Rightarrow> jsval \<Rightarrow> bool" where
  "sql_neq a b = (a \<noteq> JNull \<and> b \<noteq> JNull \<and> a \<noteq> b)"

text \<open>
  SQLite's \<^verbatim>\<open>UPPER\<close> folds the ASCII letters only, and \<^verbatim>\<open>TRIM\<close> removes spaces (0x20) at
  both ends. Names of columns are matched without regard to the case of ASCII letters.
\<close>

definition ascii_upper :: "char \<Rightarrow> char" where
  "ascii_upper c =
     (case map_of (zip ''abcdefghijklmnopqrstuvwxyz'' ''ABCDEFGHIJKLMNOPQRSTUVWXYZ'') c of
        None \<Rightarrow> c
      | Some u \<Rightarrow> u)"

definition sql_upper :: "string \<Rightarrow> string" where
  "sql_upper s = map ascii_upper s"

definition sql_trim :: "string \<Rightarrow> string" where
  "sql_trim s = rev (dropWhile (\<lambda>c. c = CHR 0x20) (rev (dropWhile (\<lambda>c. c = CHR 0x20) s)))"

text \<open>
  The schema of a table, as far as an \<^verbatim>\<open>UPDATE\<close> or \<^verbatim>\<open>INSERT\<close> consults it: the declared
  columns, those declared \<^verbatim>\<open>NOT NULL\<close>, those declared \<^verbatim>\<open>UNIQUE\<close> or \<^verbatim>\<open>PRIMARY KEY\<close>, and the
  \<^verbatim>\<open>CHECK\<close> constraints, each on one column. A value is stored as it was bound: the
  conversions that SQLite applies by the declared type of a column are not modelled.
\<close>

record table =
  columns :: "string list"
  not_null :: "string list"
  unique_cols :: "string list"
  checks :: "(string \<times> (jsval \<Rightarrow> bool)) list"

text \<open>\<^verbatim>\<open>CHECK(c IN (...))\<close> and \<^verbatim>\<open>CHECK(c >= lo AND c <= hi)\<close>; a NULL passes every check.\<close>

definition one_of :: "string list \<Rightarrow> jsval \<Rightarrow> bool" where
  "one_of texts v = (v \<in> set (map JStr texts))"

fun between :: "int \<Rightarrow> int \<Rightarrow> jsval \<Rightarrow> bool" where
  "between lo hi (JNum n) = (lo \<le> n \<and> n \<le> hi)"
| "between lo hi v = False"

text \<open>
  The column that the text \<open>key\<close> names in a statement \<^verbatim>\<open>SET key = ?\<close>. A key that is not the
  bare name of a column makes the statement fail; SQL syntax that a key could carry
  into the statement is not followed.
\<close>

definition sql_column :: "table \<Rightarrow> string \<Rightarrow> string option" where
  "sql_column t key = find (\<lambda>c. sql_upper c = sql_upper key) (columns t)"

text \<open>
  The assignments of one \<^verbatim>\<open>SET\<close> list, applied to a row from left to right: where a column
  is assigned twice, the rightmost assignment stands.
\<close>

fun assign :: "table \<Rightarrow> (string \<times> jsval) list \<Rightarrow> row \<Rightarrow> row" where
  "assign t [] r = r"
| "assign t ((k, x) # as) r =
     assign t as (case sql_column t k of None \<Rightarrow> r | Some c \<Rightarrow> r(c := bind x))"

text \<open>The constraints of the schema on one row, and on the table as a whole.\<close>

definition row_ok :: "table \<Rightarrow> row \<Rightarrow> bool" where
  "row_ok t r =
     ((\<forall>c \<in> set (not_null t). r c \<noteq> JNull)
      \<and> (\<forall>ck \<in> set (checks t). r (fst ck) = JNull \<or> snd ck (r (fst ck))))"

definition unique_ok :: "table \<Rightarrow> row list \<Rightarrow> bool" where
  "unique_ok t rows =
     (\<forall>c \<in> set (unique_cols t). distinct (filter (\<lambda>v. v \<noteq> JNull) (map (\<lambda>r. r c) rows)))"

text \<open>
  \<^verbatim>\<open>db.run("UPDATE t SET k1 = ?, ... WHERE ...")\<close>: \<open>None\<close> when the statement fails (a name
  that is no column, or a new row that a constraint rejects), and then nothing is
  written; otherwise \<^verbatim>\<open>this.changes\<close>, the number of rows selected, and the new table.
\<close>

definition sql_update ::
  "table \<Rightarrow> (string \<times> jsval) list \<Rightarrow> (row \<Rightarrow> bool) \<Rightarrow> row list \<Rightarrow> (nat \<times> row list) option" where
  "sql_update t as selected rows =
     (let rows' = map (\<lambda>r. if selected r then assign t as r else r) rows
      in if (\<exists>a \<in> set as. sql_column t (fst a) = None) then None
         else if (\<exists>r \<in> set rows. selected r \<and> \<not> row_ok t (assign t as r)) then None
         else if (\<exists>r \<in> set rows. selected r) \<and> \<not> unique_ok t rows' then None
         else Some (length (filter selected rows), rows'))"

text \<open>
  \<^verbatim>\<open>db.run("INSERT INTO t (c1, ...) VALUES (?, ...)")\<close> with the values already bound: the
  new row is appended, unless a constraint rejects it.
\<close>

definition sql_insert :: "table \<Rightarrow> row \<Rightarrow> row list \<Rightarrow> row list option" where
  "sql_insert t r rows =
     (if row_ok t r \<and> unique_ok t (rows @ [r]) then Some (rows @ [r]) else None)"

section \<open>Versions (\<^verbatim>\<open>server.js\<close>)\<close>

text \<open>
  \<^verbatim>\<open>CURRENT_TIMESTAMP\<close> is the argument \<open>now\<close> of every handler that writes. A statement
  whose text is fixed in the source names only columns of its table and assigns no value
  that a constraint rejects, so its \<^verbatim>\<open>err\<close> branch is not reached; the statements built
  from the request body go through \<open>sql_update\<close>. Where the store fails, the handler sends
  status 500 with SQLite's message, written \<open>SQLITE_ERROR\<close> here.
\<close>

definition versions_table :: table where
  "versions_table =
     \<lparr> columns = [''id'', ''version_id'', ''version_number'', ''version_name'', ''description'',
                  ''release_date'', ''status'', ''is_current'', ''features'', ''bug_fixes'',
                  ''known_issues'', ''created_by'', ''created_at'', ''updated_at''],
       not_null = [''version_id'', ''version_number'', ''version_name'', ''created_by''],
       unique_cols = [''id'', ''version_id''],
       checks = [] \<rparr>"

text \<open>\<^verbatim>\<open>UPDATE versions SET is_current = 0, updated_at = CURRENT_TIMESTAMP\<close>\<close>

definition unset_current_all :: "string \<Rightarrow> row list \<Rightarrow> row list" where
  "unset_current_all now vs = map (\<lambda>v. v(''is_current'' := JNum 0, ''updated_at'' := JStr now)) vs"

text \<open>\<^verbatim>\<open>UPDATE versions SET is_current = 0, updated_at = CURRENT_TIMESTAMP WHERE version_id != ?\<close>\<close>

definition unset_current_others :: "string \<Rightarrow> string \<Rightarrow> row list \<Rightarrow> row list" where
  "unset_current_others now version_id vs =
     map (\<lambda>v. if sql_neq (v ''version_id'') (JStr version_id)
               then v(''is_current'' := JNum 0, ''updated_at'' := JStr now) else v) vs"

text \<open>
  \<^verbatim>\<open>POST /api/versions\<close>. \<^verbatim>\<open>version_number.replace\<close> throws a TypeError unless
  \<^verbatim>\<open>version_number\<close> is a string, and the request ends with status 500 before any
  statement runs. \<open>rowid\<close> is the \<^verbatim>\<open>id\<close> that SQLite assigns to the new row; the columns
  \<^verbatim>\<open>created_at\<close> and \<^verbatim>\<open>updated_at\<close> take their default, the current time.
\<close>

definition new_version_id :: "string \<Rightarrow> string" where
  "new_version_id version_number =
     ''VER_'' @ map (\<lambda>c. if c = CHR ''.'' then CHR ''_'' else c) version_number"

definition new_version :: "string \<Rightarrow> int \<Rightarrow> string \<Rightarrow> body \<Rightarrow> row" where
  "new_version now rowid version_number b =
     empty_row
       (''id'' := JNum rowid,
        ''version_id'' := JStr (new_version_id version_number),
        ''version_number'' := JStr version_number,
        ''version_name'' := bind (get_prop b ''version_name''),
        ''description'' := bind (js_or (get_prop b ''description'') (JStr [])),
        ''release_date'' := bind (js_or (get_prop b ''release_date'') (JStr (take 10 now))),
        ''status'' := bind (js_or (get_prop b ''status'') (JStr ''active'')),
        ''is_current'' := JNum (if truthy (get_prop b ''is_current'') then 1 else 0),
        ''features'' := bind (JSON_stringify (js_or (get_prop b ''features'') (JArr []))),
        ''bug_fixes'' := bind (JSON_stringify (js_or (get_prop b ''bug_fixes'') (JArr []))),
        ''known_issues'' := bind (JSON_stringify (js_or (get_prop b ''known_issues'') (JArr []))),
        ''created_by'' := bind (get_prop b ''created_by''),
        ''created_at'' := JStr now,
        ''updated_at'' := JStr now)"

definition post_version :: "string \<Rightarrow> int \<Rightarrow> body \<Rightarrow> row list \<Rightarrow> response \<times> row list" where
  "post_version now rowid b vs =
     (case get_prop b ''version_number'' of
        JStr version_number \<Rightarrow>
          (let vs1 = (if truthy (get_prop b ''is_current'') then unset_current_all now vs else vs)
           in case sql_insert versions_table (new_version now rowid version_number b) vs1 of
                None \<Rightarrow> (Reply 500 ''SQLITE_ERROR'', vs1)
              | Some vs2 \<Rightarrow> (Reply 200 ''Version created successfully'', vs2))
      | _ \<Rightarrow> (Reply 500 ''TypeError'', vs))"

text \<open>
  \<^verbatim>\<open>PUT /api/versions/:version_id\<close>. \<^verbatim>\<open>handleCurrentVersion\<close> runs first, on
  \<^verbatim>\<open>updates.is_current\<close>; then the \<^verbatim>\<open>SET\<close> list is built from every key of the body but
  \<^verbatim>\<open>version_id\<close>, \<^verbatim>\<open>id\<close> and \<^verbatim>\<open>created_at\<close>.
\<close>

definition version_json_fields :: "string list" where
  "version_json_fields = [''features'', ''bug_fixes'', ''known_issues'']"

definition version_set_list :: "body \<Rightarrow> (string \<times> jsval) list" where
  "version_set_list updates =
     map (\<lambda>kv. (fst kv, if fst kv \<in> set version_json_fields
                         then JSON_stringify (snd kv) else snd kv))
       (filter (\<lambda>kv. fst kv \<noteq> ''version_id'' \<and> fst kv \<noteq> ''id'' \<and> fst kv \<noteq> ''created_at'') updates)"

definition put_version :: "string \<Rightarrow> string \<Rightarrow> body \<Rightarrow> row list \<Rightarrow> response \<times> row list" where
  "put_version now version_id updates vs =
     (let vs1 = (if truthy (get_prop updates ''is_current'')
                 then unset_current_others now version_id vs else vs);
          fields = version_set_list updates
      in if fields = [] then (Reply 400 ''No fields to update'', vs1)
         else case sql_update versions_table (fields @ [(''updated_at'', JStr now)])
                     (\<lambda>v. sql_eq (v ''version_id'') (JStr version_id)) vs1 of
                None \<Rightarrow> (Reply 500 ''SQLITE_ERROR'', vs1)
              | Some (changes, vs2) \<Rightarrow>
                  if changes = 0 then (Reply 404 ''Version not found'', vs2)
                  else (Reply 200 ''Version updated successfully'', vs2))"

text \<open>\<^verbatim>\<open>PUT /api/versions/:version_id/set-current\<close>\<close>

definition set_current_version :: "string \<Rightarrow> string \<Rightarrow> row list \<Rightarrow> response \<times> row list" where
  "set_current_version now version_id vs =
     (let vs1 = unset_current_all now vs;
          selected = (\<lambda>v. sql_eq (v ''version_id'') (JStr version_id));
          vs2 = map (\<lambda>v. if selected v then v(''is_current'' := JNum 1, ''updated_at'' := JStr now) else v) vs1
      in if length (filter selected vs1) = 0 then (Reply 404 ''Version not found'', vs2)
         else (Reply 200 ''Current version updated successfully'', vs2))"

text \<open>
  The rows that \<^verbatim>\<open>SELECT * FROM versions WHERE is_current = 1\<close> selects
  (\<^verbatim>\<open>GET /api/versions/current\<close>).
\<close>

definition current_versions :: "row list \<Rightarrow> row list" where
  "current_versions vs = filter (\<lambda>v. v ''is_current'' = JNum 1) vs"

text \<open>Requests on versions, and the store after a sequence of them.\<close>

datatype version_request =
    CreateVersion int body
  | UpdateVersion string body
  | SetCurrent string

fun version_handler :: "string \<Rightarrow> version_request \<Rightarrow> row list \<Rightarrow> response \<times> row list" where
  "version_handler now (CreateVersion rowid b) vs = post_version now rowid b vs"
| "version_handler now (UpdateVersion version_id updates) vs = put_version now version_id updates vs"
| "version_handler now (SetCurrent version_id) vs = set_current_version now version_id vs"

fun version_run :: "(string \<times> version_request) list \<Rightarrow> row list \<Rightarrow> row list" where
  "version_run [] vs = vs"
| "version_run ((now, rq) # rqs) vs = version_run rqs (snd (version_handler now rq vs))"

text \<open>Two of the versions that \<^verbatim>\<open>server.js\<close> seeds an empty table with.\<close>

definition seeded_versions :: "row list" where
  "seeded_versions =
     [empty_row(''id'' := JNum 2, ''version_id'' := JStr ''VER_1_1_0'',
        ''version_number'' := JStr ''1.1.0'', ''version_name'' := JStr ''Feature Update'',
        ''status'' := JStr ''active'', ''is_current'' := JNum 0, ''created_by'' := JStr ''System'',
        ''created_at'' := JStr ''2024-10-01 00:00:00'', ''updated_at'' := JStr ''2024-10-01 00:00:00''),
      empty_row(''id'' := JNum 3, ''version_id'' := JStr ''VER_1_2_0'',
        ''version_number'' := JStr ''1.2.0'', ''version_name'' := JStr ''Current Release'',
        ''status'' := JStr ''active'', ''is_current'' := JNum 1, ''created_by'' := JStr ''System'',
        ''created_at'' := JStr ''2024-10-01 00:00:00'', ''updated_at'' := JStr ''2024-10-01 00:00:00'')]"

text \<open>
  The properties of the versions table that the handlers keep: at most one version is
  current, and the \<^verbatim>\<open>version_id\<close> column is \<^verbatim>\<open>NOT NULL\<close> and \<^verbatim>\<open>UNIQUE\<close>.
\<close>

definition one_current :: "row list \<Rightarrow> bool" where
  "one_current vs = (length (current_versions vs) \<le> 1)"

definition version_ids_ok :: "row list \<Rightarrow> bool" where
  "version_ids_ok vs =
     (JNull \<notin> set (column_values ''version_id'' vs) \<and> distinct (column_values ''version_id'' vs))"

text \<open>
  A request whose body, if it names the column \<^verbatim>\<open>is_current\<close> at all, names it by the key
  \<^verbatim>\<open>is_current\<close> itself.
\<close>

fun exact_keys :: "version_request \<Rightarrow> bool" where
  "exact_keys (UpdateVersion version_id updates) =
     (distinct (map fst updates)
      \<and> (\<forall>k \<in> set (map fst updates).
            sql_column versions_table k = Some ''is_current'' \<longrightarrow> k = ''is_current''))"
| "exact_keys rq = True"

section \<open>Users\<close>

subsection \<open>\<^verbatim>\<open>server.js\<close>\<close>

definition users_table :: table where
  "users_table =
     \<lparr> columns = [''id'', ''email'', ''password'', ''name'', ''role'', ''status'', ''created_at'',
                  ''created_by'', ''last_login'', ''updated_at''],
       not_null = [''email'', ''password'', ''name''],
       unique_cols = [''id'', ''email''],
       checks = [] \<rparr>"

text \<open>\<^verbatim>\<open>String.prototype.toLowerCase\<close>, on the ASCII letters.\<close>

definition ascii_lower :: "char \<Rightarrow> char" where
  "ascii_lower c =
     (case map_of (zip ''ABCDEFGHIJKLMNOPQRSTUVWXYZ'' ''abcdefghijklmnopqrstuvwxyz'') c of
        None \<Rightarrow> c
      | Some l \<Rightarrow> l)"

fun is_string :: "jsval \<Rightarrow> bool" where
  "is_string (JStr s) = True"
| "is_string v = False"

fun toLowerCase :: "jsval \<Rightarrow> jsval" where
  "toLowerCase (JStr s) = JStr (map ascii_lower s)"
| "toLowerCase v = v"

text \<open>
  \<^verbatim>\<open>PUT /api/users/:id\<close>. \<^verbatim>\<open>updates[key].toLowerCase()\<close> throws a TypeError when the
  value of \<^verbatim>\<open>email\<close> is not a string; the loop runs before any statement.
\<close>

definition user_set_list :: "body \<Rightarrow> (string \<times> jsval) list" where
  "user_set_list updates =
     map (\<lambda>kv. (fst kv, if fst kv = ''email'' then toLowerCase (snd kv) else snd kv))
       (filter (\<lambda>kv. fst kv \<noteq> ''id'' \<and> fst kv \<noteq> ''created_at'') updates)"

definition put_user :: "string \<Rightarrow> string \<Rightarrow> body \<Rightarrow> row list \<Rightarrow> response \<times> row list" where
  "put_user now uid updates us =
     (if \<exists>kv \<in> set updates. fst kv = ''email'' \<and> \<not> is_string (snd kv) then (Reply 500 ''TypeError'', us)
      else let fields = user_set_list updates
      in if fields = [] then (Reply 400 ''No fields to update'', us)
         else case sql_update users_table (fields @ [(''updated_at'', JStr now)])
                     (\<lambda>u. sql_eq (u ''id'') (JStr uid)) us of
                None \<Rightarrow> (Reply 500 ''SQLITE_ERROR'', us)
              | Some (changes, us') \<Rightarrow>
                  if changes = 0 then (Reply 404 ''User not found'', us')
                  else (Reply 200 ''User updated successfully'', us'))"

text \<open>
  \<^verbatim>\<open>DELETE /api/users/:id\<close>: the count of the other admins, then the role of the user,
  then \<^verbatim>\<open>DELETE FROM users WHERE id = ?\<close>.
\<close>

definition delete_user :: "string \<Rightarrow> row list \<Rightarrow> response \<times> row list" where
  "delete_user uid us =
     (let adminCount = length (filter (\<lambda>u. sql_eq (u ''role'') (JStr ''admin'')
                                          \<and> sql_neq (u ''id'') (JStr uid)) us)
      in case find (\<lambda>u. sql_eq (u ''id'') (JStr uid)) us of
           None \<Rightarrow> (Reply 404 ''User not found'', us)
         | Some user \<Rightarrow>
             if user ''role'' = JStr ''admin'' \<and> adminCount = 0
             then (Reply 400 ''Cannot delete the last admin user'', us)
             else (Reply 200 ''User deleted successfully'',
                   filter (\<lambda>u. \<not> sql_eq (u ''id'') (JStr uid)) us))"

text \<open>The columns of a row that a \<^verbatim>\<open>SELECT c1, c2, ...\<close> sends.\<close>

definition project :: "string list \<Rightarrow> row \<Rightarrow> row" where
  "project cols r = (\<lambda>c. if c \<in> set cols then r c else JUndefined)"

text \<open>\<^verbatim>\<open>GET /api/users/:id\<close>\<close>

definition get_user :: "string \<Rightarrow> row list \<Rightarrow> response" where
  "get_user uid us =
     (case find (\<lambda>u. sql_eq (u ''id'') (JStr uid)) us of
        None \<Rightarrow> Reply 404 ''User not found''
      | Some user \<Rightarrow>
          ReplyRow (project [''id'', ''email'', ''name'', ''role'', ''status'', ''created_at'',
                             ''created_by'', ''last_login''] user))"

subsection \<open>\<^verbatim>\<open>src/routes/users.ts\<close>\<close>

text \<open>
  The router of \<^verbatim>\<open>users.ts\<close> works on its own \<^verbatim>\<open>users\<close> table, whose \<^verbatim>\<open>id\<close> is an INTEGER:
  the path segment \<^verbatim>\<open>req.params.id\<close> is compared with it as the integer it denotes, the
  argument \<open>uid\<close>. The handlers run behind \<^verbatim>\<open>authenticateToken\<close> and \<^verbatim>\<open>requireAdmin\<close>, which
  are not part of the model.
\<close>

text \<open>\<^verbatim>\<open>router.delete('/:id')\<close>: \<^verbatim>\<open>UPDATE users SET is_active = 0 WHERE id = ?\<close>\<close>

definition users_ts_delete :: "int \<Rightarrow> row list \<Rightarrow> response \<times> row list" where
  "users_ts_delete uid us =
     (let us' = map (\<lambda>u. if sql_eq (u ''id'') (JNum uid) then u(''is_active'' := JNum 0) else u) us
      in if length (filter (\<lambda>u. sql_eq (u ''id'') (JNum uid)) us) = 0
         then (Reply 404 ''User not found'', us')
         else (Reply 200 ''User deactivated successfully'', us'))"

text \<open>\<^verbatim>\<open>router.get('/:id')\<close>\<close>

definition users_ts_get :: "int \<Rightarrow> row list \<Rightarrow> response" where
  "users_ts_get uid us =
     (case find (\<lambda>u. sql_eq (u ''id'') (JNum uid)) us of
        None \<Rightarrow> Reply 404 ''User not found''
      | Some user \<Rightarrow>
          ReplyRow (project [''id'', ''email'', ''name'', ''role'', ''is_active'', ''created_at''] user))"

text \<open>Example tables: the users that \<^verbatim>\<open>server.js\<close> seeds, and a \<^verbatim>\<open>users.ts\<close> table.\<close>

definition seeded_users :: "row list" where
  "seeded_users =
     [empty_row(''id'' := JStr ''admin-001'', ''email'' := JStr ''admin@dnaerp.com'',
        ''password'' := JStr ''admin123'', ''name'' := JStr ''System Administrator'',
        ''role'' := JStr ''admin'', ''status'' := JStr ''active'',
        ''created_at'' := JStr ''2024-10-01 00:00:00'', ''updated_at'' := JStr ''2024-10-01 00:00:00''),
      empty_row(''id'' := JStr ''tester-001'', ''email'' := JStr ''tester@dnaerp.com'',
        ''password'' := JStr ''test123'', ''name'' := JStr ''Test User'',
        ''role'' := JStr ''tester'', ''status'' := JStr ''active'',
        ''created_at'' := JStr ''2024-10-01 00:00:00'', ''updated_at'' := JStr ''2024-10-01 00:00:00'')]"

definition ts_users :: "row list" where
  "ts_users =
     [empty_row(''id'' := JNum 1, ''email'' := JStr ''admin@dnaerp.com'', ''password'' := JStr ''$2a$10$hash'',
        ''name'' := JStr ''Admin'', ''role'' := JStr ''admin'', ''is_active'' := JNum 1,
        ''created_at'' := JStr ''2024-10-01 00:00:00'', ''updated_at'' := JStr ''2024-10-01 00:00:00''),
      empty_row(''id'' := JNum 2, ''email'' := JStr ''tester@dnaerp.com'', ''password'' := JStr ''$2a$10$hash'',
        ''name'' := JStr ''Tester'', ''role'' := JStr ''tester'', ''is_active'' := JNum 1,
        ''created_at'' := JStr ''2024-10-01 00:00:00'', ''updated_at'' := JStr ''2024-10-01 00:00:00'')]"

section \<open>Custom tests (\<^verbatim>\<open>server.js\<close>)\<close>

definition custom_tests_table :: table where
  "custom_tests_table =
     \<lparr> columns = [''id'', ''test_id'', ''title'', ''description'', ''module'', ''category'', ''priority'',
                  ''steps'', ''expected_result'', ''prerequisites'', ''test_data'', ''created_by'',
                  ''created_at'', ''updated_at'', ''is_active'', ''tags'', ''applicable_versions''],
       not_null = [''test_id'', ''title'', ''module'', ''steps'', ''expected_result'', ''created_by''],
       unique_cols = [''id'', ''test_id''],
       checks = [] \<rparr>"

text \<open>\<^verbatim>\<open>PUT /api/custom-tests/:test_id\<close>\<close>

definition custom_test_json_fields :: "string list" where
  "custom_test_json_fields = [''steps'', ''prerequisites'', ''tags'']"

definition custom_test_set_list :: "body \<Rightarrow> (string \<times> jsval) list" where
  "custom_test_set_list updates =
     map (\<lambda>kv. (fst kv, if fst kv \<in> set custom_test_json_fields
                         then JSON_stringify (snd kv) else snd kv))
       (filter (\<lambda>kv. fst kv \<noteq> ''test_id'' \<and> fst kv \<noteq> ''id'' \<and> fst kv \<noteq> ''created_at'') updates)"

definition put_custom_test :: "string \<Rightarrow> string \<Rightarrow> body \<Rightarrow> row list \<Rightarrow> response \<times> row list" where
  "put_custom_test now test_id updates ts =
     (let fields = custom_test_set_list updates
      in case sql_update custom_tests_table (fields @ [(''updated_at'', JStr now)])
                (\<lambda>t. sql_eq (t ''test_id'') (JStr test_id)) ts of
           None \<Rightarrow> (Reply 500 ''SQLITE_ERROR'', ts)
         | Some (changes, ts') \<Rightarrow>
             if changes = 0 then (Reply 404 ''Test not found'', ts')
             else (Reply 200 ''Custom test updated successfully'', ts'))"

definition example_tests :: "row list" where
  "example_tests =
     [empty_row(''id'' := JNum 1, ''test_id'' := JStr ''CT_1'', ''title'' := JStr ''Login works'',
        ''module'' := JStr ''Auth'', ''steps'' := JStr ''[]'', ''expected_result'' := JStr ''Logged in'',
        ''created_by'' := JStr ''System'', ''is_active'' := JNum 1,
        ''created_at'' := JStr ''2024-10-01 00:00:00'', ''updated_at'' := JStr ''2024-10-01 00:00:00'')]"

section \<open>Bugs (\<^verbatim>\<open>server.js\<close>)\<close>

definition bugs_table :: table where
  "bugs_table =
     \<lparr> columns = [''id'', ''bug_id'', ''title'', ''description'', ''steps_to_reproduce'',
                  ''expected_result'', ''actual_result'', ''priority'', ''severity'', ''category'',
                  ''type'', ''status'', ''resolution'', ''linked_tests'', ''related_bugs'',
                  ''parent_bug_id'', ''module_id'', ''session_id'', ''reporter_id'', ''reporter_name'',
                  ''reporter_email'', ''assignee_id'', ''assignee_name'', ''assignee_email'',
                  ''verifier_id'', ''verifier_name'', ''verifier_email'', ''environment'',
                  ''found_in_version'', ''fixed_in_version'', ''target_release'', ''created_at'',
                  ''updated_at'', ''resolved_at'', ''verified_at'', ''attachments'', ''tags'',
                  ''is_deleted''],
       not_null = [''bug_id'', ''title''],
       unique_cols = [''id'', ''bug_id''],
       checks =
         [(''priority'', one_of [''P1'', ''P2'', ''P3'', ''P4'']),
          (''severity'', one_of [''Critical'', ''Major'', ''Minor'', ''Trivial'']),
          (''type'', one_of [''Functional'', ''UI'', ''Performance'', ''Security'', ''Other'']),
          (''status'', one_of [''New'', ''Triaged'', ''Assigned'', ''In Progress'', ''Fixed'',
                               ''Ready for Test'', ''Verified'', ''Closed'', ''Reopened'', ''Rejected'']),
          (''resolution'', one_of [''Fixed'', ''Won't Fix'', ''Duplicate'', ''Cannot Reproduce'',
                                   ''By Design''])] \<rparr>"

text \<open>
  A row of \<^verbatim>\<open>bug_history\<close> or \<^verbatim>\<open>feature_history\<close>, without the \<^verbatim>\<open>id\<close> that SQLite
  assigns. The columns are TEXT: a number is stored as its decimal text.
\<close>

record history =
  entity_id :: string
  action :: string
  field_name :: jsval
  old_value :: jsval
  new_value :: jsval
  changed_by_id :: jsval
  changed_by_name :: jsval
  changed_at :: string

fun to_text :: "jsval \<Rightarrow> jsval" where
  "to_text (JNum n) = JStr (string_of_int n)"
| "to_text v = v"

definition bind_text :: "jsval \<Rightarrow> jsval" where
  "bind_text v = to_text (bind v)"

text \<open>
  \<^verbatim>\<open>row[key]\<close> on the object that \<^verbatim>\<open>SELECT *\<close> gives: the value of the column with exactly
  that name, and \<^verbatim>\<open>undefined\<close> for any other key.
\<close>

definition read_key :: "table \<Rightarrow> row \<Rightarrow> string \<Rightarrow> jsval" where
  "read_key t r key = (if key \<in> set (columns t) then r key else JUndefined)"

text \<open>
  \<^verbatim>\<open>DELETE /api/bugs/:bug_id\<close>: one \<^verbatim>\<open>UPDATE\<close> by \<^verbatim>\<open>bug_id\<close>, and a history row when it
  changed a row.
\<close>

definition delete_bug ::
  "string \<Rightarrow> string \<Rightarrow> body \<Rightarrow> row list \<Rightarrow> history list \<Rightarrow> response \<times> row list \<times> history list" where
  "delete_bug now bug_id b bugs hist =
     (let selected = (\<lambda>r. sql_eq (r ''bug_id'') (JStr bug_id));
          bugs' = map (\<lambda>r. if selected r
                            then r(''is_deleted'' := JNum 1, ''status'' := JStr ''Rejected'',
                                   ''resolution'' := JStr ''Won't Fix'', ''updated_at'' := JStr now)
                            else r) bugs
      in if length (filter selected bugs) = 0 then (Reply 404 ''Bug not found'', bugs', hist)
         else (Reply 200 ''Bug deleted successfully'', bugs',
               hist @ [\<lparr> entity_id = bug_id, action = ''Deleted'', field_name = JStr ''is_deleted'',
                         old_value = JNull, new_value = JStr ''true'',
                         changed_by_id = bind_text (js_or (get_prop b ''deleted_by_id'') (JStr ''System'')),
                         changed_by_name = bind_text (js_or (get_prop b ''deleted_by_name'') (JStr ''System'')),
                         changed_at = now \<rparr>]))"

text \<open>
  The JSON columns of a bug as the two \<^verbatim>\<open>GET\<close> handlers decode them:
  \<^verbatim>\<open>if (row.c) row.c = safeJsonParse(row.c, fallback)\<close>.
\<close>

definition decode_column :: "(string \<Rightarrow> jsval option) \<Rightarrow> string \<Rightarrow> jsval \<Rightarrow> row \<Rightarrow> row" where
  "decode_column JSON_parse c fallback r =
     (if truthy (r c) then r(c := safeJsonParse JSON_parse (r c) fallback) else r)"

definition decode_bug :: "(string \<Rightarrow> jsval option) \<Rightarrow> row \<Rightarrow> row" where
  "decode_bug JSON_parse r =
     decode_column JSON_parse ''attachments'' (JArr [])
      (decode_column JSON_parse ''tags'' (JArr [])
        (decode_column JSON_parse ''environment'' (JObj [])
          (decode_column JSON_parse ''related_bugs'' (JArr [])
            (decode_column JSON_parse ''linked_tests'' (JArr [])
              (decode_column JSON_parse ''steps_to_reproduce'' (JArr []) r)))))"

text \<open>\<^verbatim>\<open>GET /api/bugs/:bug_id\<close>\<close>

definition get_bug :: "(string \<Rightarrow> jsval option) \<Rightarrow> string \<Rightarrow> row list \<Rightarrow> response" where
  "get_bug JSON_parse bug_id bugs =
     (case find (\<lambda>r. sql_eq (r ''bug_id'') (JStr bug_id)) bugs of
        None \<Rightarrow> Reply 404 ''Bug not found''
      | Some r \<Rightarrow> ReplyRow (decode_bug JSON_parse r))"

text \<open>
  The query string of \<^verbatim>\<open>GET /api/bugs\<close>. A parameter that is absent is \<open>None\<close>; \<^verbatim>\<open>limit\<close> and
  \<^verbatim>\<open>offset\<close> are the integers that \<^verbatim>\<open>parseInt\<close> reads.
\<close>

record bug_query =
  q_status :: "string option"
  q_priority :: "string option"
  q_severity :: "string option"
  q_assignee_id :: "string option"
  q_module_id :: "string option"
  q_search :: "string option"
  q_show_deleted :: "string option"
  q_show_rejected :: "string option"
  q_limit :: "int option"
  q_offset :: "int option"

text \<open>\<^verbatim>\<open>GET /api/bugs\<close> with no parameter at all: the default listing.\<close>

definition default_query :: bug_query where
  "default_query =
     \<lparr> q_status = None, q_priority = None, q_severity = None, q_assignee_id = None,
       q_module_id = None, q_search = None, q_show_deleted = None, q_show_rejected = None,
       q_limit = None, q_offset = None \<rparr>"

text \<open>
  SQLite's \<^verbatim>\<open>LIKE\<close>: \<^verbatim>\<open>%\<close> stands for any text, \<^verbatim>\<open>_\<close> for any one character, and ASCII
  letters match without regard to case. The first argument is the pattern.
\<close>

fun sql_like :: "string \<Rightarrow> string \<Rightarrow> bool" where
  "sql_like [] s = (s = [])"
| "sql_like (p # ps) [] = (p = CHR ''%'' \<and> sql_like ps [])"
| "sql_like (p # ps) (c # cs) =
     (if p = CHR ''%'' then sql_like ps (c # cs) \<or> sql_like (p # ps) cs
      else (p = CHR ''_'' \<or> ascii_upper p = ascii_upper c) \<and> sql_like ps cs)"

text \<open>\<^verbatim>\<open>column LIKE ?\<close> for a stored value: NULL matches nothing, a number matches as its text.\<close>

fun column_like :: "string \<Rightarrow> jsval \<Rightarrow> bool" where
  "column_like pat (JStr s) = sql_like pat s"
| "column_like pat (JNum n) = sql_like pat (string_of_int n)"
| "column_like pat v = False"

text \<open>\<^verbatim>\<open>if (p) { query += " AND column = ?" }\<close>: a filter that an empty text does not switch on.\<close>

definition eq_filter :: "string option \<Rightarrow> jsval \<Rightarrow> bool" where
  "eq_filter p v = (case p of None \<Rightarrow> True | Some s \<Rightarrow> s = [] \<or> sql_eq v (JStr s))"

text \<open>The \<^verbatim>\<open>WHERE\<close> clause that \<^verbatim>\<open>GET /api/bugs\<close> builds.\<close>

definition bug_where :: "bug_query \<Rightarrow> row \<Rightarrow> bool" where
  "bug_where q r =
     ((if q_show_deleted q = Some ''false'' then sql_eq (r ''is_deleted'') (JNum 0) \<or> r ''is_deleted'' = JNull
       else if q_show_deleted q = Some ''true'' then sql_eq (r ''is_deleted'') (JNum 1)
       else True)
      \<and> (if q_show_rejected q = Some ''false''
           then sql_neq (r ''status'') (JStr ''Rejected'') \<or> sql_eq (r ''is_deleted'') (JNum 1)
         else if q_show_rejected q = Some ''true''
           then sql_eq (r ''status'') (JStr ''Rejected'')
                \<and> (sql_eq (r ''is_deleted'') (JNum 0) \<or> r ''is_deleted'' = JNull)
         else True)
      \<and> eq_filter (q_status q) (r ''status'')
      \<and> eq_filter (q_priority q) (r ''priority'')
      \<and> eq_filter (q_severity q) (r ''severity'')
      \<and> eq_filter (q_assignee_id q) (r ''assignee_id'')
      \<and> eq_filter (q_module_id q) (r ''module_id'')
      \<and> (case q_search q of
            None \<Rightarrow> True
          | Some s \<Rightarrow> s = [] \<or> column_like (''%'' @ s @ ''%'') (r ''title'')
                              \<or> column_like (''%'' @ s @ ''%'') (r ''description'')))"

text \<open>
  \<^verbatim>\<open>ORDER BY created_at DESC\<close>. SQLite orders NULL before numbers and numbers before
  texts, and texts by their code units; rows with equal keys keep their rowid order here
  (SQL leaves their order open).
\<close>

fun text_less :: "string \<Rightarrow> string \<Rightarrow> bool" where
  "text_less [] [] = False"
| "text_less [] (b # bs) = True"
| "text_less (a # as) [] = False"
| "text_less (a # as) (b # bs) =
     ((of_char a :: nat) < of_char b \<or> (a = b \<and> text_less as bs))"

fun sql_less :: "jsval \<Rightarrow> jsval \<Rightarrow> bool" where
  "sql_less (JNum a) (JNum b) = (a < b)"
| "sql_less (JNum a) (JStr b) = True"
| "sql_less (JStr a) (JStr b) = text_less a b"
| "sql_less JNull (JNum b) = True"
| "sql_less JNull (JStr b) = True"
| "sql_less a b = False"

fun insert_desc :: "string \<Rightarrow> row \<Rightarrow> row list \<Rightarrow> row list" where
  "insert_desc c r [] = [r]"
| "insert_desc c r (x # xs) =
     (if sql_less (r c) (x c) then x # insert_desc c r xs else r # x # xs)"

definition order_by_desc :: "string \<Rightarrow> row list \<Rightarrow> row list" where
  "order_by_desc c rows = foldr (insert_desc c) rows []"

text \<open>\<^verbatim>\<open>LIMIT ? OFFSET ?\<close>: a negative limit is no limit, a negative offset is 0.\<close>

definition limit_offset :: "int \<Rightarrow> int \<Rightarrow> row list \<Rightarrow> row list" where
  "limit_offset lim off rows =
     (let rest = drop (nat off) rows in if lim < 0 then rest else take (nat lim) rest)"

text \<open>\<^verbatim>\<open>GET /api/bugs\<close>\<close>

definition list_bugs :: "(string \<Rightarrow> jsval option) \<Rightarrow> bug_query \<Rightarrow> row list \<Rightarrow> response" where
  "list_bugs JSON_parse q bugs =
     ReplyRows (map (decode_bug JSON_parse)
       (limit_offset (case q_limit q of None \<Rightarrow> 100 | Some l \<Rightarrow> l)
                     (case q_offset q of None \<Rightarrow> 0 | Some off \<Rightarrow> off)
          (order_by_desc ''created_at'' (filter (bug_where q) bugs))))"

text \<open>
  \<^verbatim>\<open>PUT /api/bugs/:bug_id\<close>. The history rows are inserted while the \<^verbatim>\<open>SET\<close> list is built,
  before the \<^verbatim>\<open>UPDATE\<close> runs, and stay whatever the \<^verbatim>\<open>UPDATE\<close> does.
\<close>

definition bug_json_fields :: "string list" where
  "bug_json_fields =
     [''steps_to_reproduce'', ''linked_tests'', ''related_bugs'', ''environment'', ''tags'', ''attachments'']"

definition bug_set_list :: "body \<Rightarrow> (string \<times> jsval) list" where
  "bug_set_list updates =
     map (\<lambda>kv. (fst kv, if fst kv \<in> set bug_json_fields then JSON_stringify (snd kv) else snd kv))
       (filter (\<lambda>kv. snd kv \<noteq> JUndefined \<and> fst kv \<noteq> ''id'' \<and> fst kv \<noteq> ''bug_id''
                      \<and> fst kv \<noteq> ''created_at'') updates)"

definition bug_update_history ::
  "string \<Rightarrow> string \<Rightarrow> jsval \<Rightarrow> jsval \<Rightarrow> row \<Rightarrow> (string \<times> jsval) list \<Rightarrow> history list" where
  "bug_update_history now bug_id by_id by_name currentBug params =
     map (\<lambda>kv. \<lparr> entity_id = bug_id, action = ''Updated'', field_name = JStr (fst kv),
                  old_value = bind_text (read_key bugs_table currentBug (fst kv)),
                  new_value = bind_text (snd kv),
                  changed_by_id = bind_text by_id, changed_by_name = bind_text by_name,
                  changed_at = now \<rparr>)
       (filter (\<lambda>kv. strict_neq (read_key bugs_table currentBug (fst kv)) (snd kv)) params)"

definition put_bug ::
  "string \<Rightarrow> string \<Rightarrow> body \<Rightarrow> row list \<Rightarrow> history list \<Rightarrow> response \<times> row list \<times> history list" where
  "put_bug now bug_id b bugs hist =
     (let updates = delete_prop ''changed_by_name'' (delete_prop ''changed_by_id'' b);
          selected = (\<lambda>r. sql_eq (r ''bug_id'') (JStr bug_id))
      in case find selected bugs of
           None \<Rightarrow> (Reply 404 ''Bug not found'', bugs, hist)
         | Some currentBug \<Rightarrow>
             (let fields = bug_set_list updates;
                  hist' = hist @ bug_update_history now bug_id (get_prop b ''changed_by_id'')
                                   (get_prop b ''changed_by_name'') currentBug fields
              in if fields = [] then (Reply 200 ''No changes to update'', bugs, hist')
                 else case sql_update bugs_table (fields @ [(''updated_at'', JStr now)]) selected bugs of
                        None \<Rightarrow> (Reply 500 ''SQLITE_ERROR'', bugs, hist')
                      | Some (changes, bugs') \<Rightarrow> (Reply 200 ''Bug updated successfully'', bugs', hist')))"

definition example_bugs :: "row list" where
  "example_bugs =
     [empty_row(''id'' := JNum 1, ''bug_id'' := JStr ''BUG-1'', ''title'' := JStr ''Crash on save'',
        ''priority'' := JStr ''P2'', ''severity'' := JStr ''Major'', ''type'' := JStr ''Functional'',
        ''status'' := JStr ''New'', ''tags'' := JStr ''[\"ui\"]'', ''is_deleted'' := JNum 0,
        ''created_at'' := JStr ''2024-10-02 00:00:00'', ''updated_at'' := JStr ''2024-10-02 00:00:00''),
      empty_row(''id'' := JNum 2, ''bug_id'' := JStr ''BUG-2'', ''title'' := JStr ''Typo in report'',
        ''priority'' := JStr ''P4'', ''severity'' := JStr ''Trivial'', ''type'' := JStr ''UI'',
        ''status'' := JStr ''Assigned'', ''is_deleted'' := JNum 0,
        ''created_at'' := JStr ''2024-10-03 00:00:00'', ''updated_at'' := JStr ''2024-10-03 00:00:00'')]"

section \<open>Features (\<^verbatim>\<open>server.js\<close>)\<close>

text \<open>
  The table \<^verbatim>\<open>upcoming_features\<close>, with the two date columns that the migration adds.
\<close>

definition features_table :: table where
  "features_table =
     \<lparr> columns = [''id'', ''feature_id'', ''title'', ''description'', ''business_value'', ''user_story'',
                  ''acceptance_criteria'', ''priority'', ''feature_type'', ''category'', ''complexity'',
                  ''status'', ''module_id'', ''target_version'', ''linked_tests'', ''related_features'',
                  ''dependencies'', ''blocks'', ''creator_id'', ''creator_name'', ''creator_email'',
                  ''owner_id'', ''owner_name'', ''owner_email'', ''developer_id'', ''developer_name'',
                  ''developer_email'', ''tester_id'', ''tester_name'', ''tester_email'',
                  ''estimated_hours'', ''actual_hours'', ''progress_percentage'', ''technical_notes'',
                  ''api_endpoints'', ''database_changes'', ''dependencies_external'', ''created_at'',
                  ''updated_at'', ''started_at'', ''completed_at'', ''released_at'', ''attachments'',
                  ''tags'', ''is_deleted'', ''start_date'', ''end_date''],
       not_null = [''feature_id'', ''title'', ''module_id'', ''target_version'', ''creator_name''],
       unique_cols = [''id'', ''feature_id''],
       checks =
         [(''priority'', one_of [''P1'', ''P2'', ''P3'', ''P4'']),
          (''feature_type'', one_of [''New Feature'', ''Enhancement'', ''Improvement'',
                                     ''Technical Debt'', ''Refactoring'']),
          (''complexity'', one_of [''Low'', ''Medium'', ''High'', ''Very High'']),
          (''status'', one_of [''Planned'', ''In Design'', ''Ready for Dev'', ''In Development'',
                               ''Code Review'', ''Ready for Test'', ''In Testing'', ''Test Failed'',
                               ''Completed'', ''On Hold'', ''Cancelled'']),
          (''progress_percentage'', between 0 100)] \<rparr>"

definition allowedFields :: "string list" where
  "allowedFields =
     [''title'', ''description'', ''business_value'', ''user_story'', ''acceptance_criteria'',
      ''priority'', ''feature_type'', ''category'', ''complexity'', ''status'',
      ''module_id'', ''target_version'',
      ''owner_id'', ''owner_name'', ''owner_email'',
      ''developer_id'', ''developer_name'', ''developer_email'',
      ''tester_id'', ''tester_name'', ''tester_email'',
      ''estimated_hours'', ''actual_hours'', ''progress_percentage'',
      ''start_date'', ''end_date'',
      ''technical_notes'', ''api_endpoints'', ''database_changes'', ''dependencies_external'',
      ''started_at'', ''completed_at'', ''released_at'',
      ''tags'', ''is_deleted'']"

text \<open>
  \<^verbatim>\<open>PUT /api/features/:feature_id\<close>. The value bound to the \<^verbatim>\<open>SET\<close> list is the JSON text of
  an array or object; the value compared with the stored one, \<^verbatim>\<open>newValue\<close>, is the value
  of the body as it came.
\<close>

definition feature_set_list :: "body \<Rightarrow> (string \<times> jsval) list" where
  "feature_set_list updates =
     map (\<lambda>kv. (fst kv, if is_object (snd kv) then JSON_stringify (snd kv) else snd kv))
       (filter (\<lambda>kv. fst kv \<in> set allowedFields) updates)"

definition feature_update_history ::
  "string \<Rightarrow> string \<Rightarrow> jsval \<Rightarrow> row \<Rightarrow> body \<Rightarrow> history list" where
  "feature_update_history now feature_id changed_by oldFeature updates =
     map (\<lambda>kv. \<lparr> entity_id = feature_id, action = ''Field Updated'', field_name = JStr (fst kv),
                  old_value = JStr (js_String (js_or (read_key features_table oldFeature (fst kv)) (JStr []))),
                  new_value = JStr (js_String (js_or (snd kv) (JStr []))),
                  changed_by_id = JNull, changed_by_name = bind_text changed_by,
                  changed_at = now \<rparr>)
       (filter (\<lambda>kv. strict_neq (read_key features_table oldFeature (fst kv)) (snd kv))
          (filter (\<lambda>kv. fst kv \<in> set allowedFields) updates))"

definition put_feature ::
  "string \<Rightarrow> string \<Rightarrow> body \<Rightarrow> row list \<Rightarrow> history list \<Rightarrow> response \<times> row list \<times> history list" where
  "put_feature now feature_id b features hist =
     (let changed_by_name = js_or (get_prop b ''changed_by_name'') (JStr ''Unknown'');
          updates = delete_prop ''changed_by_name'' b;
          selected = (\<lambda>r. sql_eq (r ''feature_id'') (JStr feature_id))
      in case find selected features of
           None \<Rightarrow> (Reply 404 ''Feature not found'', features, hist)
         | Some oldFeature \<Rightarrow>
             (let setClauses = feature_set_list updates;
                  hist' = hist @ feature_update_history now feature_id changed_by_name oldFeature updates
              in if setClauses = [] then (Reply 400 ''No valid fields to update'', features, hist')
                 else case sql_update features_table (setClauses @ [(''updated_at'', JStr now)])
                             selected features of
                        None \<Rightarrow> (Reply 500 ''SQLITE_ERROR'', features, hist')
                      | Some (changes, features') \<Rightarrow>
                          (Reply 200 ''Feature updated successfully'', features', hist')))"

definition example_features :: "row list" where
  "example_features =
     [empty_row(''id'' := JNum 1, ''feature_id'' := JStr ''FEAT-1'', ''title'' := JStr ''Dark mode'',
        ''priority'' := JStr ''P3'', ''feature_type'' := JStr ''Enhancement'',
        ''complexity'' := JStr ''Medium'', ''status'' := JStr ''Planned'',
        ''module_id'' := JStr ''MOD_QA'', ''target_version'' := JStr ''VER_1_2_0'',
        ''creator_name'' := JStr ''Ann'', ''tags'' := JStr ''[\"ui\"]'', ''is_deleted'' := JNum 0,
        ''created_at'' := JStr ''2024-10-02 00:00:00'', ''updated_at'' := JStr ''2024-10-02 00:00:00'')]"

section \<open>Statistics (\<^verbatim>\<open>server.js\<close>)\<close>

text \<open>
  The \<^verbatim>\<open>CASE\<close> expression that \<^verbatim>\<open>testsByStatus\<close> of \<^verbatim>\<open>GET /api/statistics\<close> groups by. A
  NULL status meets no \<^verbatim>\<open>WHEN\<close> and is its own group.
\<close>

fun status_bucket :: "jsval \<Rightarrow> jsval" where
  "status_bucket (JStr s) =
     (if sql_upper s = ''PASS'' then JStr ''Pass''
      else if sql_upper s = ''FAIL'' then JStr ''Fail''
      else if sql_upper s = ''BLOCKED'' then JStr ''Blocked''
      else if sql_upper s = ''NOT STARTED'' then JStr ''Not Started''
      else JStr s)"
| "status_bucket v = v"

text \<open>
  The \<^verbatim>\<open>CASE\<close> expression that \<^verbatim>\<open>testsByStatus\<close> of \<^verbatim>\<open>GET /api/versions/:version_id/statistics\<close>
  groups by.
\<close>

fun version_status_bucket :: "jsval \<Rightarrow> jsval" where
  "version_status_bucket (JStr s) =
     (if sql_upper (sql_trim s) \<in> set [''PASS'', ''PASSED''] then JStr ''Pass''
      else if sql_upper (sql_trim s) \<in> set [''FAIL'', ''FAILED''] then JStr ''Fail''
      else if sql_upper (sql_trim s) = ''BLOCKED'' then JStr ''Blocked''
      else if sql_upper (sql_trim s) \<in> set [''NOT STARTED'', ''NOTSTARTED''] then JStr ''Not Started''
      else JStr (sql_trim s))"
| "version_status_bucket v = v"

text \<open>
  \<^verbatim>\<open>SELECT bucket AS status, COUNT(*) AS count ... GROUP BY bucket\<close>: one pair for each
  bucket that occurs, listed in the order of first occurrence (SQL leaves the order
  open).
\<close>

definition group_count :: "(jsval \<Rightarrow> jsval) \<Rightarrow> row list \<Rightarrow> (jsval \<times> nat) list" where
  "group_count bucket rows =
     map (\<lambda>b. (b, length (filter (\<lambda>r. bucket (r ''status'') = b) rows)))
       (rev (remdups (rev (map (\<lambda>r. bucket (r ''status'')) rows))))"

text \<open>\<^verbatim>\<open>testsByStatus\<close> of \<^verbatim>\<open>GET /api/statistics\<close>, over \<^verbatim>\<open>test_results\<close>.\<close>

definition testsByStatus :: "row list \<Rightarrow> (jsval \<times> nat) list" where
  "testsByStatus test_results = group_count status_bucket test_results"

text \<open>
  \<^verbatim>\<open>testsByStatus\<close> of \<^verbatim>\<open>GET /api/versions/:version_id/statistics\<close>: the results joined with
  the sessions of the version.
\<close>

definition version_testsByStatus :: "string \<Rightarrow> row list \<Rightarrow> row list \<Rightarrow> (jsval \<times> nat) list" where
  "version_testsByStatus version_id test_results test_sessions =
     group_count version_status_bucket
       (concat (map (\<lambda>tr. map (\<lambda>ts. tr)
                  (filter (\<lambda>ts. sql_eq (tr ''session_id'') (ts ''session_id'')
                                 \<and> sql_eq (ts ''version_id'') (JStr version_id)) test_sessions))
                test_results))"

text \<open>Example rows: three results of one session, with the spellings of the legacy data.\<close>

definition example_sessions :: "row list" where
  "example_sessions =
     [empty_row(''id'' := JNum 1, ''session_id'' := JStr ''S1'', ''version_id'' := JStr ''VER_1_2_0'')]"

definition legacy_results :: "row list" where
  "legacy_results =
     [empty_row(''id'' := JNum 1, ''session_id'' := JStr ''S1'', ''status'' := JStr ''Pass''),
      empty_row(''id'' := JNum 2, ''session_id'' := JStr ''S1'', ''status'' := JStr ''PASS''),
      empty_row(''id'' := JNum 3, ''session_id'' := JStr ''S1'', ''status'' := JStr ''pass '')]"

definition skipped_results :: "row list" where
  "skipped_results =
     [empty_row(''id'' := JNum 1, ''session_id'' := JStr ''S1'', ''status'' := JStr ''Skipped''),
      empty_row(''id'' := JNum 2, ''session_id'' := JStr ''S1'', ''status'' := JStr ''skipped'')]"

section \<open>Properties of the decoder\<close>

lemma split_delim_not_Nil: "split_delim s \<noteq> []"
  by (cases s) simp_all

lemma split_delim_no_delim: "t \<in> set (split_delim s) \<Longrightarrow> c \<in> set t \<Longrightarrow> \<not> is_delim c"
proof (induction s arbitrary: t)
  case Nil
  then show ?case by simp
next
  case (Cons a s)
  obtain p ps where ps: "split_delim s = p # ps"
    using split_delim_not_Nil [of s] by (cases "split_delim s") auto
  show ?case
  proof (cases "is_delim a")
    case True
    with Cons.prems have "t = [] \<or> t \<in> set (split_delim s)" by simp
    with Cons show ?thesis by auto
  next
    case False
    with Cons.prems ps have "t = a # p \<or> t \<in> set ps" by simp
    then show ?thesis
    proof
      assume "t = a # p"
      with Cons.prems have "c = a \<or> c \<in> set p" by simp
      then show ?thesis
        using False Cons.IH [of p] ps by auto
    next
      assume "t \<in> set ps"
      then show ?thesis using Cons.IH [of t] Cons.prems ps by simp
    qed
  qed
qed

lemma split_delim_single: "\<forall>c \<in> set s. \<not> is_delim c \<Longrightarrow> split_delim s = [s]"
  by (induction s) simp_all

lemma set_js_trim: "set (js_trim s) \<subseteq> set s"
proof -
  have "set (js_trim s) = set (dropWhile js_whitespace (rev (dropWhile js_whitespace s)))"
    by (simp add: js_trim_def)
  also have "\<dots> \<subseteq> set (rev (dropWhile js_whitespace s))"
    by (rule set_dropWhileD [THEN subsetI]) simp
  also have "\<dots> \<subseteq> set s"
    using set_dropWhileD [of _ js_whitespace s] by auto
  finally show ?thesis .
qed

lemma js_trim_ends:
  assumes "js_trim s \<noteq> []"
  shows "\<not> js_whitespace (hd (js_trim s)) \<and> \<not> js_whitespace (last (js_trim s))"
proof -
  let ?a = "dropWhile js_whitespace s"
  let ?b = "dropWhile js_whitespace (rev ?a)"
  have b: "?b \<noteq> []" using assms by (simp add: js_trim_def)
  then have hb: "\<not> js_whitespace (hd ?b)" by (rule hd_dropWhile)
  have "last (js_trim s) = hd ?b" using b by (simp add: js_trim_def last_rev)
  with hb have l: "\<not> js_whitespace (last (js_trim s))" by simp
  have a: "?a \<noteq> []"
  proof
    assume "?a = []"
    then have "?b = []" by (simp only: rev.simps dropWhile.simps)
    with b show False by (simp only: not_False_eq_True simp_thms)
  qed
  then have ha: "\<not> js_whitespace (hd ?a)" by (rule hd_dropWhile)
  have "rev ?a = takeWhile js_whitespace (rev ?a) @ ?b" by simp
  then have "?a = rev ?b @ rev (takeWhile js_whitespace (rev ?a))"
    by (metis rev_append rev_rev_ident)
  moreover have "rev ?b \<noteq> []" using b by simp
  ultimately have "hd ?a = hd (rev ?b)" by (metis hd_append2)
  then have "hd (js_trim s) = hd ?a" by (simp add: js_trim_def)
  with ha l show ?thesis by simp
qed

lemma split_items_tokens:
  assumes "t \<in> set (split_items s)"
  shows "t \<noteq> [] \<and> \<not> js_whitespace (hd t) \<and> \<not> js_whitespace (last t)
         \<and> (\<forall>c \<in> set t. \<not> is_delim c)"
proof -
  from assms obtain p where p: "p \<in> set (split_delim s)" and t: "t = js_trim p" and ne: "t \<noteq> []"
    by (auto simp: split_items_def)
  have "\<forall>c \<in> set t. \<not> is_delim c"
    using set_js_trim [of p] split_delim_no_delim [OF p] t by auto
  with js_trim_ends [of p] t ne show ?thesis by simp
qed

subsection \<open>Claim C1\<close>

text \<open>
  C1, as stated, at the stored text \<^verbatim>\<open>undefined\<close>: the text is not JSON, the fallback is an
  array and the text holds no comma and no newline, so the claim gives the one-element
  list of the text. The decoder returns the fallback: its first test also catches the
  literal \<^verbatim>\<open>undefined\<close>.
\<close>

theorem safeJsonParse_undefined_counterexample:
  "JSON_parse_examples ''undefined'' = None
   \<and> isArray (JArr [])
   \<and> split_delim ''undefined'' = [''undefined'']
   \<and> safeJsonParse JSON_parse_examples (JStr ''undefined'') (JArr []) = JArr []
   \<and> safeJsonParse JSON_parse_examples (JStr ''undefined'') (JArr []) \<noteq> JArr [JStr ''undefined'']"
  by (simp add: safeJsonParse_def JSON_parse_examples_def is_delim_def)

text \<open>
  C1 (amended): for every stored string \<open>raw\<close> and every fallback \<open>d\<close>, the decoder is a
  total function (it never throws) and returns
  \<^item> \<open>d\<close> when the stored value is null, or \<open>raw\<close> is empty, the literal \<^verbatim>\<open>null\<close> or the
    literal \<^verbatim>\<open>undefined\<close>;
  \<^item> otherwise the parsed value when \<open>raw\<close> is JSON;
  \<^item> otherwise, when \<open>d\<close> is an array: the trimmed non-empty pieces of \<open>raw\<close> split at commas
    and newlines when \<open>raw\<close> holds a comma or a newline, and the one-element list of \<open>raw\<close>
    when it holds neither;
  \<^item> otherwise \<open>d\<close>.
\<close>

theorem safeJsonParse_decode:
  "safeJsonParse JSON_parse JNull d = d
   \<and> (raw = [] \<or> raw = ''null'' \<or> raw = ''undefined'' \<longrightarrow>
        safeJsonParse JSON_parse (JStr raw) d = d)
   \<and> (raw \<noteq> [] \<and> raw \<noteq> ''null'' \<and> raw \<noteq> ''undefined'' \<longrightarrow>
        (JSON_parse raw = Some v \<longrightarrow> safeJsonParse JSON_parse (JStr raw) d = v)
        \<and> (JSON_parse raw = None \<and> isArray d \<and> (\<exists>c \<in> set raw. is_delim c) \<longrightarrow>
             safeJsonParse JSON_parse (JStr raw) d = JArr (map JStr (split_items raw)))
        \<and> (JSON_parse raw = None \<and> isArray d \<and> (\<forall>c \<in> set raw. \<not> is_delim c) \<longrightarrow>
             safeJsonParse JSON_parse (JStr raw) d = JArr [JStr raw])
        \<and> (JSON_parse raw = None \<and> \<not> isArray d \<longrightarrow>
             safeJsonParse JSON_parse (JStr raw) d = d))"
  by (auto simp: safeJsonParse_def is_delim_def)

theorem safeJsonParse_decode_witness:
  "safeJsonParse JSON_parse_examples (JStr ''a,b,c'') (JArr []) = JArr [JStr ''a'', JStr ''b'', JStr ''c'']
   \<and> safeJsonParse JSON_parse_examples (JStr ''single'') (JArr []) = JArr [JStr ''single'']
   \<and> safeJsonParse JSON_parse_examples (JStr ''[\"ui\"]'') (JArr []) = JArr [JStr ''ui'']
   \<and> safeJsonParse JSON_parse_examples (JStr ''null'') (JArr [JStr ''x'']) = JArr [JStr ''x'']
   \<and> safeJsonParse JSON_parse_examples (JStr ''single'') (JObj []) = JObj []"
  using safeJsonParse_decode [of JSON_parse_examples "JArr []" "''a,b,c''"]
    safeJsonParse_decode [of JSON_parse_examples "JArr []" "''single''"]
    safeJsonParse_decode [of JSON_parse_examples "JArr []" "''[\"ui\"]''" "JArr [JStr ''ui'']"]
    safeJsonParse_decode [of JSON_parse_examples "JArr [JStr ''x'']" "''null''"]
    safeJsonParse_decode [of JSON_parse_examples "JObj []" "''single''"]
  by (simp add: JSON_parse_examples_def split_items_def js_trim_def js_whitespace_def is_delim_def)

section \<open>Soft deletion of bugs\<close>

lemma delete_bug_rows:
  "fst (snd (delete_bug now bug_id b bugs hist)) =
     map (\<lambda>r. if r ''bug_id'' = JStr bug_id
               then r(''is_deleted'' := JNum 1, ''status'' := JStr ''Rejected'',
                      ''resolution'' := JStr ''Won't Fix'', ''updated_at'' := JStr now)
               else r) bugs"
  by (simp add: delete_bug_def Let_def sql_eq_def)

lemma delete_bug_reply:
  assumes "\<exists>r \<in> set bugs. r ''bug_id'' = JStr bug_id"
  shows "fst (delete_bug now bug_id b bugs hist) = Reply 200 ''Bug deleted successfully''"
proof -
  from assms have "filter (\<lambda>r. sql_eq (r ''bug_id'') (JStr bug_id)) bugs \<noteq> []"
    by (force simp: filter_empty_conv sql_eq_def)
  then show ?thesis by (simp add: delete_bug_def Let_def)
qed

lemma decode_column_other: "c' \<noteq> c \<Longrightarrow> decode_column P c fb r c' = r c'"
  by (simp add: decode_column_def)

lemma decode_bug_keeps: "c \<notin> set bug_json_fields \<Longrightarrow> decode_bug P r c = r c"
  by (simp add: decode_bug_def bug_json_fields_def decode_column_other)

lemma set_insert_desc: "set (insert_desc c r xs) = insert r (set xs)"
  by (induction xs) auto

lemma set_order_by_desc: "set (order_by_desc c rows) = set rows"
  by (induction rows) (simp_all add: order_by_desc_def set_insert_desc)

lemma set_limit_offset: "set (limit_offset lim off rows) \<subseteq> set rows"
proof -
  have "set (take (nat lim) (drop (nat off) rows)) \<subseteq> set (drop (nat off) rows)"
    by (rule set_take_subset)
  moreover have "set (drop (nat off) rows) \<subseteq> set rows"
    by (rule set_drop_subset)
  ultimately show ?thesis by (auto simp: limit_offset_def Let_def)
qed

lemma length_insert_desc: "length (insert_desc c r xs) = Suc (length xs)"
  by (induction xs) auto

lemma length_order_by_desc: "length (order_by_desc c rows) = length rows"
  by (induction rows) (simp_all add: order_by_desc_def length_insert_desc)

lemma bug_where_default: "bug_where default_query r"
  by (simp add: bug_where_def default_query_def eq_filter_def)

lemma list_bugs_default:
  assumes "length bugs \<le> 100"
  shows "set (reply_rows (list_bugs P default_query bugs)) = decode_bug P ` set bugs"
proof -
  have f: "filter (bug_where default_query) bugs = bugs"
    by (simp add: bug_where_default)
  have "length (order_by_desc ''created_at'' bugs) \<le> 100"
    using assms by (simp add: length_order_by_desc)
  then have "limit_offset 100 0 (order_by_desc ''created_at'' bugs) = order_by_desc ''created_at'' bugs"
    by (simp add: limit_offset_def)
  moreover have "q_limit default_query = None" and "q_offset default_query = None"
    by (simp_all add: default_query_def)
  ultimately show ?thesis
    by (simp add: list_bugs_def f set_order_by_desc)
qed

lemma list_bugs_rows:
  assumes "x \<in> set (reply_rows (list_bugs P q bugs))"
  shows "\<exists>y \<in> set bugs. bug_where q y \<and> x = decode_bug P y"
proof -
  from assms obtain y where
    y: "y \<in> set (limit_offset (case q_limit q of None \<Rightarrow> 100 | Some l \<Rightarrow> l)
                    (case q_offset q of None \<Rightarrow> 0 | Some off \<Rightarrow> off)
                    (order_by_desc ''created_at'' (filter (bug_where q) bugs)))"
    and x: "x = decode_bug P y"
    by (auto simp: list_bugs_def)
  from y set_limit_offset have "y \<in> set (order_by_desc ''created_at'' (filter (bug_where q) bugs))"
    by blast
  then have "y \<in> set bugs \<and> bug_where q y" by (simp add: set_order_by_desc)
  with x show ?thesis by blast
qed

lemma bug_where_hides_deleted:
  assumes "q_show_deleted (q :: bug_query) = Some ''false''" and "r ''is_deleted'' = JNum 1"
  shows "\<not> bug_where q r"
  using assms by (simp add: bug_where_def sql_eq_def)

lemma deleted_rows:
  assumes "y \<in> set (fst (snd (delete_bug now bug_id b bugs hist)))" and "y ''bug_id'' = JStr bug_id"
  shows "y ''is_deleted'' = JNum 1"
  using assms by (auto simp: delete_bug_rows split: if_splits)

lemma column_values_mem: "r \<in> set rows \<Longrightarrow> r c \<in> set (column_values c rows)"
  by (simp add: column_values_def)

lemma bug_id_not_json: "''bug_id'' \<notin> set bug_json_fields" "''is_deleted'' \<notin> set bug_json_fields"
  by (simp_all add: bug_json_fields_def)

lemma get_bug_after_delete:
  assumes "\<exists>r \<in> set bugs. r ''bug_id'' = JStr bug_id"
  shows "\<exists>r. get_bug P bug_id (fst (snd (delete_bug now bug_id b bugs hist))) = ReplyRow r
             \<and> r ''bug_id'' = JStr bug_id \<and> r ''is_deleted'' = JNum 1"
proof -
  let ?bugs' = "fst (snd (delete_bug now bug_id b bugs hist))"
  let ?sel = "\<lambda>r. sql_eq (r ''bug_id'') (JStr bug_id)"
  from assms obtain r0 where r0: "r0 \<in> set bugs" "r0 ''bug_id'' = JStr bug_id" by blast
  then have "r0(''is_deleted'' := JNum 1, ''status'' := JStr ''Rejected'',
                ''resolution'' := JStr ''Won't Fix'', ''updated_at'' := JStr now) \<in> set ?bugs'"
    by (force simp: delete_bug_rows)
  moreover have "?sel (r0(''is_deleted'' := JNum 1, ''status'' := JStr ''Rejected'',
                ''resolution'' := JStr ''Won't Fix'', ''updated_at'' := JStr now))"
    using r0 by (simp add: sql_eq_def)
  ultimately have "find ?sel ?bugs' \<noteq> None"
    by (auto simp: find_None_iff)
  then obtain y where y: "find ?sel ?bugs' = Some y" by blast
  then have "y \<in> set ?bugs'" and "?sel y"
    by (auto simp: find_Some_iff)
  then have "y ''bug_id'' = JStr bug_id" and "y ''is_deleted'' = JNum 1"
    using deleted_rows [of y now bug_id b bugs hist] by (auto simp: sql_eq_def)
  with y show ?thesis
    by (simp add: get_bug_def decode_bug_keeps bug_id_not_json)
qed

lemma delete_bug_not_found:
  assumes "\<forall>r \<in> set bugs. r ''bug_id'' \<noteq> JStr bug_id"
  shows "delete_bug now bug_id b bugs hist = (Reply 404 ''Bug not found'', bugs, hist)"
proof -
  from assms have "filter (\<lambda>r. sql_eq (r ''bug_id'') (JStr bug_id)) bugs = []"
    by (simp add: filter_empty_conv sql_eq_def)
  moreover from assms have "map (\<lambda>r. if sql_eq (r ''bug_id'') (JStr bug_id)
                            then r(''is_deleted'' := JNum 1, ''status'' := JStr ''Rejected'',
                                   ''resolution'' := JStr ''Won't Fix'', ''updated_at'' := JStr now)
                            else r) bugs = bugs"
    by (simp add: map_idI sql_eq_def)
  ultimately show ?thesis by (simp add: delete_bug_def Let_def)
qed

subsection \<open>Claim C4\<close>

text \<open>
  C4, as stated, on a table of two bugs: after \<^verbatim>\<open>DELETE /api/bugs/BUG-1\<close> the listing
  \<^verbatim>\<open>GET /api/bugs\<close> with no parameter still sends BUG-1, with \<^verbatim>\<open>is_deleted\<close> 1. The handler
  filters on \<^verbatim>\<open>is_deleted\<close> only when \<^verbatim>\<open>show_deleted\<close> is \<^verbatim>\<open>'false'\<close> or \<^verbatim>\<open>'true'\<close>.
\<close>

theorem default_listing_counterexample:
  "column_values ''bug_id'' example_bugs = [JStr ''BUG-1'', JStr ''BUG-2'']
   \<and> reply_status (fst (delete_bug ''2024-11-01 10:00:00'' ''BUG-1'' [] example_bugs [])) = 200
   \<and> column_values ''bug_id'' (reply_rows (list_bugs JSON_parse_examples default_query
        (fst (snd (delete_bug ''2024-11-01 10:00:00'' ''BUG-1'' [] example_bugs [])))))
      = [JStr ''BUG-2'', JStr ''BUG-1'']
   \<and> column_values ''is_deleted'' (reply_rows (list_bugs JSON_parse_examples default_query
        (fst (snd (delete_bug ''2024-11-01 10:00:00'' ''BUG-1'' [] example_bugs [])))))
      = [JNum 0, JNum 1]"
  by code_simp

text \<open>
  C4 (amended): for every existing bug, \<^verbatim>\<open>DELETE /api/bugs/:bug_id\<close> answers with success,
  keeps every row of the table and sets \<^verbatim>\<open>is_deleted\<close> to 1 on the bug; a following
  \<^verbatim>\<open>GET /api/bugs/:bug_id\<close> still sends the bug; a following listing with
  \<^verbatim>\<open>show_deleted=false\<close> does not send it, whatever the other parameters; the default
  listing (no parameter) applies no filter on \<^verbatim>\<open>is_deleted\<close> and sends it whenever the table
  holds at most 100 bugs, the default limit.
\<close>

theorem soft_delete_bug:
  assumes "\<exists>r \<in> set bugs. r ''bug_id'' = JStr bug_id"
  shows "fst (delete_bug now bug_id b bugs hist) = Reply 200 ''Bug deleted successfully''
    \<and> length (fst (snd (delete_bug now bug_id b bugs hist))) = length bugs
    \<and> (\<forall>r \<in> set (fst (snd (delete_bug now bug_id b bugs hist))).
          r ''bug_id'' = JStr bug_id \<longrightarrow> r ''is_deleted'' = JNum 1)
    \<and> (\<exists>r. get_bug JSON_parse bug_id (fst (snd (delete_bug now bug_id b bugs hist))) = ReplyRow r
            \<and> r ''bug_id'' = JStr bug_id \<and> r ''is_deleted'' = JNum 1)
    \<and> (\<forall>q :: bug_query. q_show_deleted q = Some ''false'' \<longrightarrow>
          JStr bug_id \<notin> set (column_values ''bug_id''
             (reply_rows (list_bugs JSON_parse q (fst (snd (delete_bug now bug_id b bugs hist)))))))
    \<and> (length bugs \<le> 100 \<longrightarrow>
          JStr bug_id \<in> set (column_values ''bug_id''
             (reply_rows (list_bugs JSON_parse default_query
                (fst (snd (delete_bug now bug_id b bugs hist)))))))"
proof -
  let ?bugs' = "fst (snd (delete_bug now bug_id b bugs hist))"
  have len: "length ?bugs' = length bugs" by (simp add: delete_bug_rows)
  have flag: "\<forall>r \<in> set ?bugs'. r ''bug_id'' = JStr bug_id \<longrightarrow> r ''is_deleted'' = JNum 1"
    using deleted_rows by blast
  have hidden: "\<forall>q :: bug_query. q_show_deleted q = Some ''false'' \<longrightarrow>
          JStr bug_id \<notin> set (column_values ''bug_id'' (reply_rows (list_bugs JSON_parse q ?bugs')))"
  proof (intro allI impI notI)
    fix q :: bug_query
    assume q: "q_show_deleted q = Some ''false''"
    assume "JStr bug_id \<in> set (column_values ''bug_id'' (reply_rows (list_bugs JSON_parse q ?bugs')))"
    then obtain x where x: "x \<in> set (reply_rows (list_bugs JSON_parse q ?bugs'))"
      and xid: "x ''bug_id'' = JStr bug_id"
      by (auto simp: column_values_def)
    from list_bugs_rows [OF x] obtain y where y: "y \<in> set ?bugs'" "bug_where q y"
      and xy: "x = decode_bug JSON_parse y" by blast
    from xid xy have "y ''bug_id'' = JStr bug_id"
      by (simp add: decode_bug_keeps bug_id_not_json)
    with y(1) flag have "y ''is_deleted'' = JNum 1" by blast
    with q have "\<not> bug_where q y" by (rule bug_where_hides_deleted)
    with y(2) show False by blast
  qed
  have shown: "length bugs \<le> 100 \<longrightarrow>
          JStr bug_id \<in> set (column_values ''bug_id''
             (reply_rows (list_bugs JSON_parse default_query ?bugs')))"
  proof
    assume "length bugs \<le> 100"
    with len have "length ?bugs' \<le> 100" by simp
    then have s: "set (reply_rows (list_bugs JSON_parse default_query ?bugs'))
                  = decode_bug JSON_parse ` set ?bugs'"
      by (rule list_bugs_default)
    from get_bug_after_delete [OF assms, of JSON_parse now b hist]
    obtain r where "get_bug JSON_parse bug_id ?bugs' = ReplyRow r" by blast
    then obtain y where "find (\<lambda>r. sql_eq (r ''bug_id'') (JStr bug_id)) ?bugs' = Some y"
      by (auto simp: get_bug_def split: option.splits)
    then have "y \<in> set ?bugs'" and "y ''bug_id'' = JStr bug_id"
      by (auto simp: find_Some_iff sql_eq_def)
    then have "decode_bug JSON_parse y \<in> decode_bug JSON_parse ` set ?bugs'"
      and d: "decode_bug JSON_parse y ''bug_id'' = JStr bug_id"
      by (simp_all add: decode_bug_keeps bug_id_not_json)
    with s have "decode_bug JSON_parse y \<in> set (reply_rows (list_bugs JSON_parse default_query ?bugs'))"
      by simp
    then have "decode_bug JSON_parse y ''bug_id'' \<in> set (column_values ''bug_id''
             (reply_rows (list_bugs JSON_parse default_query ?bugs')))"
      by (rule column_values_mem)
    with d show "JStr bug_id \<in> set (column_values ''bug_id''
             (reply_rows (list_bugs JSON_parse default_query ?bugs')))"
      by simp
  qed
  show ?thesis
  proof (intro conjI)
    show "fst (delete_bug now bug_id b bugs hist) = Reply 200 ''Bug deleted successfully''"
      by (rule delete_bug_reply [OF assms])
    show "length ?bugs' = length bugs" by (rule len)
    show "\<forall>r \<in> set ?bugs'. r ''bug_id'' = JStr bug_id \<longrightarrow> r ''is_deleted'' = JNum 1"
      by (rule flag)
    show "\<exists>r. get_bug JSON_parse bug_id ?bugs' = ReplyRow r
            \<and> r ''bug_id'' = JStr bug_id \<and> r ''is_deleted'' = JNum 1"
      by (rule get_bug_after_delete [OF assms])
    show "\<forall>q :: bug_query. q_show_deleted q = Some ''false'' \<longrightarrow>
          JStr bug_id \<notin> set (column_values ''bug_id'' (reply_rows (list_bugs JSON_parse q ?bugs')))"
      by (rule hidden)
    show "length bugs \<le> 100 \<longrightarrow>
          JStr bug_id \<in> set (column_values ''bug_id''
             (reply_rows (list_bugs JSON_parse default_query ?bugs')))"
      by (rule shown)
  qed
qed

theorem soft_delete_bug_witness:
  "column_values ''bug_id'' example_bugs = [JStr ''BUG-1'', JStr ''BUG-2'']
   \<and> fst (delete_bug ''2024-11-01 10:00:00'' ''BUG-1'' [] example_bugs []) = Reply 200 ''Bug deleted successfully''
   \<and> column_values ''is_deleted'' (reply_rows (get_bug JSON_parse_examples ''BUG-1''
        (fst (snd (delete_bug ''2024-11-01 10:00:00'' ''BUG-1'' [] example_bugs []))))) = [JNum 1]
   \<and> column_values ''bug_id'' (reply_rows (list_bugs JSON_parse_examples
        (default_query\<lparr>q_show_deleted := Some ''false''\<rparr>)
        (fst (snd (delete_bug ''2024-11-01 10:00:00'' ''BUG-1'' [] example_bugs []))))) = [JStr ''BUG-2'']
   \<and> JStr ''BUG-1'' \<in> set (column_values ''bug_id'' (reply_rows (list_bugs JSON_parse_examples default_query
        (fst (snd (delete_bug ''2024-11-01 10:00:00'' ''BUG-1'' [] example_bugs []))))))"
proof -
  have h: "\<exists>r \<in> set example_bugs. r ''bug_id'' = JStr ''BUG-1''"
    by (simp add: example_bugs_def)
  have l: "length example_bugs \<le> 100"
    by (simp add: example_bugs_def)
  have e: "column_values ''bug_id'' example_bugs = [JStr ''BUG-1'', JStr ''BUG-2'']
   \<and> column_values ''is_deleted'' (reply_rows (get_bug JSON_parse_examples ''BUG-1''
        (fst (snd (delete_bug ''2024-11-01 10:00:00'' ''BUG-1'' [] example_bugs []))))) = [JNum 1]
   \<and> column_values ''bug_id'' (reply_rows (list_bugs JSON_parse_examples
        (default_query\<lparr>q_show_deleted := Some ''false''\<rparr>)
        (fst (snd (delete_bug ''2024-11-01 10:00:00'' ''BUG-1'' [] example_bugs []))))) = [JStr ''BUG-2'']"
    by code_simp
  show ?thesis
    using soft_delete_bug [OF h, of "''2024-11-01 10:00:00''" "[]" "[]" JSON_parse_examples] l e
    by blast
qed

subsection \<open>Claim C10\<close>

text \<open>
  C10: for every existing bug, \<^verbatim>\<open>DELETE /api/bugs/:bug_id\<close> answers with success and
  changes four columns of the row of that bug: \<^verbatim>\<open>is_deleted\<close> becomes 1, \<^verbatim>\<open>status\<close> becomes
  \<^verbatim>\<open>Rejected\<close>, \<^verbatim>\<open>resolution\<close> becomes \<^verbatim>\<open>Won't Fix\<close> and \<^verbatim>\<open>updated_at\<close> becomes the current
  time. Every other column of that row keeps its value, and every other row of the table
  is unchanged.
\<close>

theorem delete_bug_frame:
  assumes "\<exists>r \<in> set bugs. r ''bug_id'' = JStr bug_id"
  shows "fst (delete_bug now bug_id b bugs hist) = Reply 200 ''Bug deleted successfully''
    \<and> length (fst (snd (delete_bug now bug_id b bugs hist))) = length bugs
    \<and> (\<forall>i < length bugs.
          ((bugs ! i) ''bug_id'' = JStr bug_id \<longrightarrow>
             (fst (snd (delete_bug now bug_id b bugs hist)) ! i) ''is_deleted'' = JNum 1
             \<and> (fst (snd (delete_bug now bug_id b bugs hist)) ! i) ''status'' = JStr ''Rejected''
             \<and> (fst (snd (delete_bug now bug_id b bugs hist)) ! i) ''resolution'' = JStr ''Won't Fix''
             \<and> (fst (snd (delete_bug now bug_id b bugs hist)) ! i) ''updated_at'' = JStr now
             \<and> (\<forall>c. c \<notin> {''is_deleted'', ''status'', ''resolution'', ''updated_at''} \<longrightarrow>
                   (fst (snd (delete_bug now bug_id b bugs hist)) ! i) c = (bugs ! i) c))
          \<and> ((bugs ! i) ''bug_id'' \<noteq> JStr bug_id \<longrightarrow>
                fst (snd (delete_bug now bug_id b bugs hist)) ! i = bugs ! i))"
  using delete_bug_reply [OF assms] by (simp add: delete_bug_rows)

theorem delete_bug_frame_witness:
  "column_values ''bug_id'' example_bugs = [JStr ''BUG-1'', JStr ''BUG-2'']
   \<and> fst (delete_bug ''2024-11-01 10:00:00'' ''BUG-1'' [] example_bugs []) = Reply 200 ''Bug deleted successfully''
   \<and> column_values ''is_deleted'' (fst (snd (delete_bug ''2024-11-01 10:00:00'' ''BUG-1'' [] example_bugs []))) = [JNum 1, JNum 0]
   \<and> column_values ''status'' (fst (snd (delete_bug ''2024-11-01 10:00:00'' ''BUG-1'' [] example_bugs []))) = [JStr ''Rejected'', JStr ''Assigned'']
   \<and> column_values ''resolution'' (fst (snd (delete_bug ''2024-11-01 10:00:00'' ''BUG-1'' [] example_bugs []))) = [JStr ''Won't Fix'', JNull]
   \<and> column_values ''updated_at'' (fst (snd (delete_bug ''2024-11-01 10:00:00'' ''BUG-1'' [] example_bugs []))) = [JStr ''2024-11-01 10:00:00'', JStr ''2024-10-03 00:00:00'']
   \<and> column_values ''title'' (fst (snd (delete_bug ''2024-11-01 10:00:00'' ''BUG-1'' [] example_bugs []))) = [JStr ''Crash on save'', JStr ''Typo in report'']"
proof -
  have h: "\<exists>r \<in> set example_bugs. r ''bug_id'' = JStr ''BUG-1''"
    by (simp add: example_bugs_def)
  have e: "column_values ''bug_id'' example_bugs = [JStr ''BUG-1'', JStr ''BUG-2'']"
    by (simp add: example_bugs_def column_values_def)
  have r: "column_values ''is_deleted'' (fst (snd (delete_bug ''2024-11-01 10:00:00'' ''BUG-1'' [] example_bugs []))) = [JNum 1, JNum 0]
   \<and> column_values ''status'' (fst (snd (delete_bug ''2024-11-01 10:00:00'' ''BUG-1'' [] example_bugs []))) = [JStr ''Rejected'', JStr ''Assigned'']
   \<and> column_values ''resolution'' (fst (snd (delete_bug ''2024-11-01 10:00:00'' ''BUG-1'' [] example_bugs []))) = [JStr ''Won't Fix'', JNull]
   \<and> column_values ''updated_at'' (fst (snd (delete_bug ''2024-11-01 10:00:00'' ''BUG-1'' [] example_bugs []))) = [JStr ''2024-11-01 10:00:00'', JStr ''2024-10-03 00:00:00'']
   \<and> column_values ''title'' (fst (snd (delete_bug ''2024-11-01 10:00:00'' ''BUG-1'' [] example_bugs []))) = [JStr ''Crash on save'', JStr ''Typo in report'']"
    by code_simp
  show ?thesis
    using delete_bug_frame [OF h, of "''2024-11-01 10:00:00''" "[]" "[]"] e r
    by blast
qed

section \<open>Versions: the current flag\<close>

subsection \<open>What the handlers keep\<close>

text \<open>
  On a table whose \<^verbatim>\<open>version_id\<close> values are set and distinct, every create, update and
  set-current request keeps the number of current versions at one or none, as long as an
  update names the column \<^verbatim>\<open>is_current\<close> by the key \<^verbatim>\<open>is_current\<close> only.
\<close>

lemma filter_map_le:
  assumes "\<forall>x \<in> set xs. P (f x) \<longrightarrow> Q x"
  shows "length (filter P (map f xs)) \<le> length (filter Q xs)"
  using assms by (induction xs) auto

lemma filter_key_le_1:
  assumes "distinct (map key rows)"
  shows "length (filter (\<lambda>r. key r = a) rows) \<le> 1"
  using assms
proof (induction rows)
  case Nil
  then show ?case by simp
next
  case (Cons x xs)
  show ?case
  proof (cases "key x = a")
    case True
    with Cons.prems have "a \<notin> key ` set xs" by simp
    then have "\<forall>r \<in> set xs. key r \<noteq> a" by blast
    then have "filter (\<lambda>r. key r = a) xs = []" by (simp add: filter_empty_conv)
    with True show ?thesis by simp
  next
    case False
    with Cons show ?thesis by simp
  qed
qed

lemma assign_keeps:
  assumes "\<forall>kv \<in> set as. sql_column t (fst kv) = Some c \<longrightarrow> bind (snd kv) \<noteq> V"
    and "assign t as r c = V"
  shows "r c = V"
  using assms
proof (induction as arbitrary: r)
  case Nil
  then show ?case by simp
next
  case (Cons a as)
  obtain k x where a: "a = (k, x)" by (cases a)
  let ?r' = "case sql_column t k of None \<Rightarrow> r | Some c' \<Rightarrow> r(c' := bind x)"
  from Cons.prems a have "assign t as ?r' c = V" by simp
  moreover from Cons.prems have "\<forall>kv \<in> set as. sql_column t (fst kv) = Some c \<longrightarrow> bind (snd kv) \<noteq> V"
    by simp
  ultimately have r': "?r' c = V" by (rule Cons.IH [rotated])
  show ?case
  proof (cases "sql_column t k")
    case None
    with r' show ?thesis by simp
  next
    case (Some c')
    show ?thesis
    proof (cases "c' = c")
      case True
      with Some Cons.prems(1) a have "bind x \<noteq> V" by simp
      with r' Some True show ?thesis by simp
    next
      case False
      with r' Some show ?thesis by simp
    qed
  qed
qed

lemma falsy_bind: "\<not> truthy x \<Longrightarrow> bind x \<noteq> JNum 1"
  by (cases x) auto

lemma sql_update_Some:
  assumes "sql_update t as sel rows = Some (n, rows')"
  shows "rows' = map (\<lambda>r. if sel r then assign t as r else r) rows"
    and "(\<exists>r \<in> set rows. sel r) \<Longrightarrow> (\<forall>r \<in> set rows. sel r \<longrightarrow> row_ok t (assign t as r)) \<and> unique_ok t rows'"
  using assms by (simp_all add: sql_update_def Let_def split: if_splits)

lemma version_ids_ok_same_ids:
  assumes "version_ids_ok vs" and "column_values ''version_id'' vs' = column_values ''version_id'' vs"
  shows "version_ids_ok vs'"
  using assms by (simp add: version_ids_ok_def)

lemma version_ids_ok_mem:
  assumes "version_ids_ok vs" and "v \<in> set vs"
  shows "v ''version_id'' \<noteq> JNull"
proof
  assume "v ''version_id'' = JNull"
  moreover from assms(2) have "v ''version_id'' \<in> set (column_values ''version_id'' vs)"
    by (rule column_values_mem)
  ultimately have "JNull \<in> set (column_values ''version_id'' vs)" by simp
  with assms(1) show False by (simp add: version_ids_ok_def)
qed

lemma unset_current_all_ids:
  "column_values ''version_id'' (unset_current_all now vs) = column_values ''version_id'' vs"
  by (simp add: unset_current_all_def column_values_def)

lemma unset_current_others_ids:
  "column_values ''version_id'' (unset_current_others now version_id vs) = column_values ''version_id'' vs"
  by (simp add: unset_current_others_def column_values_def)

lemma unset_current_all_none: "current_versions (unset_current_all now vs) = []"
  by (simp add: current_versions_def unset_current_all_def filter_empty_conv)

lemma unset_current_others_current:
  assumes "v \<in> set (unset_current_others now version_id vs)" and "v ''is_current'' = JNum 1"
    and "v ''version_id'' \<noteq> JNull"
  shows "v ''version_id'' = JStr version_id"
  using assms by (auto simp: unset_current_others_def sql_neq_def split: if_splits)

lemma version_ids_ok_unique:
  assumes "\<forall>v \<in> set vs. v ''version_id'' \<noteq> JNull" and "unique_ok versions_table vs"
  shows "version_ids_ok vs"
proof -
  from assms(1) have nn: "JNull \<notin> set (column_values ''version_id'' vs)"
    by (auto simp: column_values_def)
  then have "filter (\<lambda>x. x \<noteq> JNull) (column_values ''version_id'' vs) = column_values ''version_id'' vs"
    by (simp add: filter_id_conv) blast
  moreover from assms(2)
  have "distinct (filter (\<lambda>x. x \<noteq> JNull) (column_values ''version_id'' vs))"
    by (simp add: unique_ok_def versions_table_def column_values_def)
  ultimately show ?thesis using nn by (simp add: version_ids_ok_def)
qed

lemma row_ok_version_id: "row_ok versions_table v \<Longrightarrow> v ''version_id'' \<noteq> JNull"
  by (simp add: row_ok_def versions_table_def)

lemma version_ids_ok_one:
  assumes "version_ids_ok vs"
  shows "length (filter (\<lambda>v. v ''version_id'' = JStr version_id) vs) \<le> 1"
proof -
  from assms have "distinct (map (\<lambda>v. v ''version_id'') vs)"
    by (simp add: version_ids_ok_def column_values_def)
  then show ?thesis by (rule filter_key_le_1)
qed

lemma one_current_unset_all: "one_current (unset_current_all now vs)"
  by (simp add: one_current_def unset_current_all_none)

lemma set_current_version_inv:
  assumes "version_ids_ok vs"
  shows "version_ids_ok (snd (set_current_version now version_id vs))
         \<and> one_current (snd (set_current_version now version_id vs))"
proof -
  let ?vs1 = "unset_current_all now vs"
  let ?sel = "\<lambda>v. sql_eq (v ''version_id'') (JStr version_id)"
  let ?f = "\<lambda>v. if ?sel v then v(''is_current'' := JNum 1, ''updated_at'' := JStr now) else v"
  have s: "snd (set_current_version now version_id vs) = map ?f ?vs1"
    by (simp add: set_current_version_def Let_def)
  have ok1: "version_ids_ok ?vs1"
    using assms unset_current_all_ids by (rule version_ids_ok_same_ids)
  have "column_values ''version_id'' (map ?f ?vs1) = column_values ''version_id'' ?vs1"
    by (simp add: column_values_def)
  with ok1 have ok2: "version_ids_ok (map ?f ?vs1)" by (rule version_ids_ok_same_ids)
  have "length (filter (\<lambda>v. v ''is_current'' = JNum 1) (map ?f ?vs1))
          \<le> length (filter (\<lambda>v. v ''version_id'' = JStr version_id) ?vs1)"
  proof (rule filter_map_le, intro ballI impI)
    fix x
    assume x: "x \<in> set ?vs1" and c: "?f x ''is_current'' = JNum 1"
    from x have "x ''is_current'' \<noteq> JNum 1" by (auto simp: unset_current_all_def)
    with c have "?sel x" by (auto split: if_splits)
    then show "x ''version_id'' = JStr version_id" by (simp add: sql_eq_def)
  qed
  also have "\<dots> \<le> 1" using ok1 by (rule version_ids_ok_one)
  finally have "one_current (map ?f ?vs1)" by (simp add: one_current_def current_versions_def)
  with ok2 s show ?thesis by simp
qed

lemma sql_insert_Some:
  assumes "sql_insert t r rows = Some rows'"
  shows "rows' = rows @ [r]" and "row_ok t r" and "unique_ok t (rows @ [r])"
  using assms by (simp_all add: sql_insert_def split: if_splits)

lemma new_version_is_current:
  "new_version now rowid version_number b ''is_current''
     = JNum (if truthy (get_prop b ''is_current'') then 1 else 0)"
  by (simp add: new_version_def)

lemma current_versions_append:
  "current_versions (vs @ [v]) = current_versions vs @ (if v ''is_current'' = JNum 1 then [v] else [])"
  by (simp add: current_versions_def)

lemma post_version_inv:
  assumes "version_ids_ok vs" and "one_current vs"
  shows "version_ids_ok (snd (post_version now rowid b vs))
         \<and> one_current (snd (post_version now rowid b vs))"
proof (cases "get_prop b ''version_number''")
  case (JStr version_number)
  let ?vs1 = "if truthy (get_prop b ''is_current'') then unset_current_all now vs else vs"
  let ?new = "new_version now rowid version_number b"
  have ok1: "version_ids_ok ?vs1"
    using assms(1) unset_current_all_ids [of now vs] by (simp add: version_ids_ok_def)
  have one1: "one_current ?vs1"
    using assms(2) by (simp add: one_current_unset_all)
  have s: "snd (post_version now rowid b vs) =
      (case sql_insert versions_table ?new ?vs1 of None \<Rightarrow> ?vs1 | Some vs2 \<Rightarrow> vs2)"
    using JStr by (simp add: post_version_def Let_def split: option.splits)
  show ?thesis
  proof (cases "sql_insert versions_table ?new ?vs1")
    case None
    with s ok1 one1 show ?thesis by simp
  next
    case (Some vs2)
    note ins = sql_insert_Some [OF Some]
    have nn: "\<forall>v \<in> set (?vs1 @ [?new]). v ''version_id'' \<noteq> JNull"
      using ok1 version_ids_ok_mem [of ?vs1] by (auto simp: new_version_def)
    from nn ins(3) have ok2: "version_ids_ok (?vs1 @ [?new])" by (rule version_ids_ok_unique)
    have one2: "one_current (?vs1 @ [?new])"
    proof (cases "truthy (get_prop b ''is_current'')")
      case True
      then show ?thesis
        by (simp add: one_current_def current_versions_append unset_current_all_none)
    next
      case False
      with assms(2) show ?thesis
        by (simp add: one_current_def current_versions_append new_version_is_current)
    qed
    from s Some ins(1) ok2 one2 show ?thesis by simp
  qed
qed (simp_all add: post_version_def assms)

lemma updated_at_column: "sql_column versions_table ''updated_at'' = Some ''updated_at''"
  by code_simp

lemma is_current_not_json: "''is_current'' \<notin> set version_json_fields"
  by (simp add: version_json_fields_def)

lemma version_set_list_falsy:
  assumes "distinct (map fst updates)"
    and "\<forall>k \<in> set (map fst updates). sql_column versions_table k = Some ''is_current'' \<longrightarrow> k = ''is_current''"
    and "\<not> truthy (get_prop updates ''is_current'')"
    and "kv \<in> set (version_set_list updates @ [(''updated_at'', JStr now)])"
    and "sql_column versions_table (fst kv) = Some ''is_current''"
  shows "bind (snd kv) \<noteq> JNum 1"
proof (cases "kv = (''updated_at'', JStr now)")
  case True
  with assms(5) show ?thesis by (simp add: updated_at_column)
next
  case False
  let ?g = "\<lambda>kv. (fst kv, if fst kv \<in> set version_json_fields then JSON_stringify (snd kv) else snd kv)"
  from False assms(4) have "kv \<in> set (version_set_list updates)" by simp
  then have "kv \<in> ?g ` set updates" unfolding version_set_list_def by auto
  then obtain y where y: "y \<in> set updates" and kv: "kv = ?g y" by (rule imageE)
  from y have "fst y \<in> set (map fst updates)" by simp
  moreover from kv assms(5) have "sql_column versions_table (fst y) = Some ''is_current''" by simp
  ultimately have k: "fst y = ''is_current''" using assms(2) by blast
  from y have "(fst y, snd y) \<in> set updates" by simp
  with assms(1) have "map_of updates (fst y) = Some (snd y)" by (rule map_of_is_SomeI)
  with k have "get_prop updates ''is_current'' = snd y" by (simp add: get_prop_def)
  with assms(3) have "bind (snd y) \<noteq> JNum 1" by (simp add: falsy_bind)
  moreover from kv k have "snd kv = snd y" by (simp add: is_current_not_json)
  ultimately show ?thesis by simp
qed

lemma one_current_unset_others:
  assumes "one_current vs"
  shows "one_current (unset_current_others now version_id vs)"
proof -
  have "length (filter (\<lambda>v. v ''is_current'' = JNum 1)
          (map (\<lambda>v. if sql_neq (v ''version_id'') (JStr version_id)
                     then v(''is_current'' := JNum 0, ''updated_at'' := JStr now) else v) vs))
        \<le> length (filter (\<lambda>v. v ''is_current'' = JNum 1) vs)"
    by (rule filter_map_le) (auto split: if_splits)
  with assms show ?thesis
    by (simp add: one_current_def current_versions_def unset_current_others_def)
qed

lemma put_version_inv:
  assumes ok: "version_ids_ok vs" and one: "one_current vs"
    and ex: "exact_keys (UpdateVersion version_id updates)"
  shows "version_ids_ok (snd (put_version now version_id updates vs))
         \<and> one_current (snd (put_version now version_id updates vs))"
proof -
  let ?cur = "truthy (get_prop updates ''is_current'')"
  let ?vs1 = "if ?cur then unset_current_others now version_id vs else vs"
  let ?as = "version_set_list updates @ [(''updated_at'', JStr now)]"
  let ?sel = "\<lambda>v. sql_eq (v ''version_id'') (JStr version_id)"
  let ?f = "\<lambda>r. if ?sel r then assign versions_table ?as r else r"
  have ok1: "version_ids_ok ?vs1"
    using ok unset_current_others_ids [of now version_id vs] by (simp add: version_ids_ok_def)
  have one1: "one_current ?vs1"
    using one by (simp add: one_current_unset_others)
  have s: "snd (put_version now version_id updates vs) =
      (if version_set_list updates = [] then ?vs1
       else case sql_update versions_table ?as ?sel ?vs1 of None \<Rightarrow> ?vs1 | Some (n, vs2) \<Rightarrow> vs2)"
    by (simp add: put_version_def Let_def split: option.splits)
  show ?thesis
  proof (cases "version_set_list updates = [] \<or> sql_update versions_table ?as ?sel ?vs1 = None")
    case True
    with s have "snd (put_version now version_id updates vs) = ?vs1" by auto
    with ok1 one1 show ?thesis by simp
  next
    case False
    then obtain n vs2 where up: "sql_update versions_table ?as ?sel ?vs1 = Some (n, vs2)"
      and ne: "version_set_list updates \<noteq> []" by auto
    from s up ne have s2: "snd (put_version now version_id updates vs) = vs2" by simp
    note u = sql_update_Some [OF up]
    have ok2: "version_ids_ok vs2"
    proof (cases "\<exists>r \<in> set ?vs1. ?sel r")
      case True
      from u(2) [OF True] have rows: "\<forall>r \<in> set ?vs1. ?sel r \<longrightarrow> row_ok versions_table (assign versions_table ?as r)"
        and uniq: "unique_ok versions_table vs2" by blast+
      have "\<forall>v \<in> set vs2. v ''version_id'' \<noteq> JNull"
      proof
        fix v assume "v \<in> set vs2"
        with u(1) obtain r where r: "r \<in> set ?vs1" and v: "v = ?f r" by auto
        show "v ''version_id'' \<noteq> JNull"
        proof (cases "?sel r")
          case True
          with rows r have "row_ok versions_table (assign versions_table ?as r)" by blast
          then have "assign versions_table ?as r ''version_id'' \<noteq> JNull" by (rule row_ok_version_id)
          with v True show ?thesis by simp
        next
          case False
          with v r ok1 show ?thesis using version_ids_ok_mem [of ?vs1 r] by simp
        qed
      qed
      then show ?thesis using uniq by (rule version_ids_ok_unique)
    next
      case False
      then have "map ?f ?vs1 = ?vs1" by (simp add: map_idI)
      with u(1) ok1 show ?thesis by simp
    qed
    have "length (filter (\<lambda>v. v ''is_current'' = JNum 1) (map ?f ?vs1)) \<le> 1"
    proof (cases ?cur)
      case True
      have "length (filter (\<lambda>v. v ''is_current'' = JNum 1) (map ?f ?vs1))
              \<le> length (filter (\<lambda>v. v ''version_id'' = JStr version_id) ?vs1)"
      proof (rule filter_map_le, intro ballI impI)
        fix x
        assume x: "x \<in> set ?vs1" and c: "?f x ''is_current'' = JNum 1"
        show "x ''version_id'' = JStr version_id"
        proof (cases "?sel x")
          case True
          then show ?thesis by (simp add: sql_eq_def)
        next
          case False
          from x True have "x \<in> set (unset_current_others now version_id vs)" by simp
          moreover from False c have "x ''is_current'' = JNum 1" by simp
          moreover from ok1 x have "x ''version_id'' \<noteq> JNull" by (rule version_ids_ok_mem)
          ultimately show ?thesis by (rule unset_current_others_current)
        qed
      qed
      also have "\<dots> \<le> 1" using ok1 by (rule version_ids_ok_one)
      finally show ?thesis .
    next
      case False
      from ex have d: "distinct (map fst updates)"
        and k: "\<forall>k \<in> set (map fst updates). sql_column versions_table k = Some ''is_current'' \<longrightarrow> k = ''is_current''"
        by simp_all
      have "length (filter (\<lambda>v. v ''is_current'' = JNum 1) (map ?f ?vs1))
              \<le> length (filter (\<lambda>v. v ''is_current'' = JNum 1) ?vs1)"
      proof (rule filter_map_le, intro ballI impI)
        fix x
        assume x: "x \<in> set ?vs1" and c: "?f x ''is_current'' = JNum 1"
        show "x ''is_current'' = JNum 1"
        proof (cases "?sel x")
          case True
          with c have a: "assign versions_table ?as x ''is_current'' = JNum 1" by simp
          have "\<forall>kv \<in> set ?as. sql_column versions_table (fst kv) = Some ''is_current''
                   \<longrightarrow> bind (snd kv) \<noteq> JNum 1"
            using version_set_list_falsy [OF d k False] by blast
          then show ?thesis using a by (rule assign_keeps)
        next
          case False
          with c show ?thesis by simp
        qed
      qed
      also have "\<dots> \<le> 1" using one1 by (simp add: one_current_def current_versions_def)
      finally show ?thesis .
    qed
    with u(1) have "one_current vs2" by (simp add: one_current_def current_versions_def)
    with ok2 s2 show ?thesis by simp
  qed
qed

lemma version_handler_inv:
  assumes "version_ids_ok vs" and "one_current vs" and "exact_keys rq"
  shows "version_ids_ok (snd (version_handler now rq vs))
         \<and> one_current (snd (version_handler now rq vs))"
proof (cases rq)
  case (CreateVersion rowid b)
  with assms post_version_inv show ?thesis by simp
next
  case (UpdateVersion version_id updates)
  with assms put_version_inv [of vs version_id updates now] show ?thesis by simp
next
  case (SetCurrent version_id)
  with assms set_current_version_inv show ?thesis by simp
qed

lemma version_run_inv:
  assumes "version_ids_ok vs" and "one_current vs" and "\<forall>x \<in> set rqs. exact_keys (snd x)"
  shows "version_ids_ok (version_run rqs vs) \<and> one_current (version_run rqs vs)"
  using assms
proof (induction rqs arbitrary: vs)
  case Nil
  then show ?case by simp
next
  case (Cons x rqs)
  obtain now rq where x: "x = (now, rq)" by (cases x)
  with Cons.prems have "exact_keys rq" by simp
  with Cons.prems(1,2) have "version_ids_ok (snd (version_handler now rq vs))
         \<and> one_current (snd (version_handler now rq vs))"
    by (rule version_handler_inv)
  moreover from Cons.prems have "\<forall>y \<in> set rqs. exact_keys (snd y)" by simp
  ultimately show ?case using x Cons.IH by simp
qed

lemma version_run_example:
  "version_ids_ok seeded_versions \<and> one_current seeded_versions
   \<and> column_values ''is_current'' (version_run
        [(''2024-11-01 10:00:00'', UpdateVersion ''VER_1_1_0'' [(''is_current'', JBool True), (''status'', JStr ''current'')]),
         (''2024-11-02 10:00:00'', CreateVersion 4 [(''version_number'', JStr ''2.0.0''), (''version_name'', JStr ''Next''),
              (''is_current'', JBool True), (''created_by'', JStr ''Ann'')]),
         (''2024-11-03 10:00:00'', SetCurrent ''VER_1_2_0'')] seeded_versions)
     = [JNum 0, JNum 1, JNum 0]"
  by code_simp

subsection \<open>Claim C2\<close>

text \<open>
  C2 at a failing request. The table holds the seeded versions, of which VER_1_2_0 alone
  is current. \<^verbatim>\<open>PUT /api/versions/VER_1_1_0\<close> with the body \<^verbatim>\<open>{"IS_CURRENT": 1}\<close>:
  \<^verbatim>\<open>updates.is_current\<close> is undefined, so no version is unset; the key passes the filter and
  the statement \<^verbatim>\<open>UPDATE versions SET IS_CURRENT = ?, updated_at = CURRENT_TIMESTAMP WHERE
  version_id = ?\<close> sets the column \<^verbatim>\<open>is_current\<close> of VER_1_1_0, SQLite matching the name of
  a column without regard to case. Two versions are current afterwards, where the claim
  allows one.
\<close>

theorem put_version_uppercase_key_two_current:
  "column_values ''version_id'' seeded_versions = [JStr ''VER_1_1_0'', JStr ''VER_1_2_0'']
   \<and> column_values ''is_current'' seeded_versions = [JNum 0, JNum 1]
   \<and> length (current_versions seeded_versions) = 1
   \<and> reply_status (fst (put_version ''2024-11-01 10:00:00'' ''VER_1_1_0'' [(''IS_CURRENT'', JNum 1)] seeded_versions)) = 200
   \<and> column_values ''is_current''
        (snd (put_version ''2024-11-01 10:00:00'' ''VER_1_1_0'' [(''IS_CURRENT'', JNum 1)] seeded_versions))
      = [JNum 1, JNum 1]
   \<and> length (current_versions
        (snd (put_version ''2024-11-01 10:00:00'' ''VER_1_1_0'' [(''IS_CURRENT'', JNum 1)] seeded_versions))) = 2"
  by code_simp

subsection \<open>Claim C5\<close>

text \<open>
  C5 at a failing request. \<^verbatim>\<open>PUT /api/versions/VER_9_9_9\<close> with the body
  \<^verbatim>\<open>{"is_current": true}\<close>, where no version VER_9_9_9 exists: the handler answers 404
  \<^verbatim>\<open>Version not found\<close>, after it has set \<^verbatim>\<open>is_current\<close> to 0 and refreshed \<^verbatim>\<open>updated_at\<close> on
  every other version. The claim has the store unchanged.
\<close>

theorem put_version_not_found_after_unset:
  "column_values ''version_id'' seeded_versions = [JStr ''VER_1_1_0'', JStr ''VER_1_2_0'']
   \<and> column_values ''is_current'' seeded_versions = [JNum 0, JNum 1]
   \<and> column_values ''updated_at'' seeded_versions = [JStr ''2024-10-01 00:00:00'', JStr ''2024-10-01 00:00:00'']
   \<and> reply_status (fst (put_version ''2024-11-01 10:00:00'' ''VER_9_9_9'' [(''is_current'', JBool True)] seeded_versions)) = 404
   \<and> reply_text (fst (put_version ''2024-11-01 10:00:00'' ''VER_9_9_9'' [(''is_current'', JBool True)] seeded_versions)) = ''Version not found''
   \<and> column_values ''is_current''
        (snd (put_version ''2024-11-01 10:00:00'' ''VER_9_9_9'' [(''is_current'', JBool True)] seeded_versions))
      = [JNum 0, JNum 0]
   \<and> column_values ''updated_at''
        (snd (put_version ''2024-11-01 10:00:00'' ''VER_9_9_9'' [(''is_current'', JBool True)] seeded_versions))
      = [JStr ''2024-11-01 10:00:00'', JStr ''2024-11-01 10:00:00'']"
  by code_simp

section \<open>History of updates\<close>

subsection \<open>The bug handler\<close>

text \<open>
  \<^verbatim>\<open>PUT /api/bugs/:bug_id\<close> appends one row, with the action \<^verbatim>\<open>Updated\<close>, for each field of
  the \<^verbatim>\<open>SET\<close> list whose value, JSON-encoded where the field is a JSON field, is not
  identical to the stored one.
\<close>

lemma put_bug_not_found:
  assumes "\<forall>r \<in> set bugs. r ''bug_id'' \<noteq> JStr bug_id"
  shows "put_bug now bug_id b bugs hist = (Reply 404 ''Bug not found'', bugs, hist)"
proof -
  from assms have "find (\<lambda>r. sql_eq (r ''bug_id'') (JStr bug_id)) bugs = None"
    by (simp add: find_None_iff sql_eq_def)
  then show ?thesis by (simp add: put_bug_def Let_def)
qed

lemma put_bug_history:
  assumes "find (\<lambda>r. sql_eq (r ''bug_id'') (JStr bug_id)) bugs = Some currentBug"
  shows "snd (snd (put_bug now bug_id b bugs hist)) =
           hist @ bug_update_history now bug_id (get_prop b ''changed_by_id'') (get_prop b ''changed_by_name'')
                    currentBug (bug_set_list (delete_prop ''changed_by_name'' (delete_prop ''changed_by_id'' b)))"
  using assms by (simp add: put_bug_def Let_def split: option.splits)

lemma bug_update_history_count:
  "length (bug_update_history now bug_id by_id by_name currentBug params) =
     length (filter (\<lambda>kv. strict_neq (read_key bugs_table currentBug (fst kv)) (snd kv)) params)"
  by (simp add: bug_update_history_def)

lemma put_bug_three_of_four:
  "map action (snd (snd (put_bug ''2024-11-01 10:00:00'' ''BUG-1''
       [(''tags'', JArr [JStr ''ui'', JStr ''x'']), (''title'', JStr ''Crash''), (''status'', JStr ''Fixed''),
        (''priority'', JStr ''P2''), (''changed_by_name'', JStr ''Ann'')] example_bugs [])))
     = [''Updated'', ''Updated'', ''Updated'']
   \<and> map field_name (snd (snd (put_bug ''2024-11-01 10:00:00'' ''BUG-1''
       [(''tags'', JArr [JStr ''ui'', JStr ''x'']), (''title'', JStr ''Crash''), (''status'', JStr ''Fixed''),
        (''priority'', JStr ''P2''), (''changed_by_name'', JStr ''Ann'')] example_bugs [])))
     = [JStr ''tags'', JStr ''title'', JStr ''status'']
   \<and> snd (snd (put_bug ''2024-11-01 10:00:00'' ''BUG-1''
       [(''tags'', JArr [JStr ''ui'']), (''title'', JStr ''Crash on save''), (''changed_by_name'', JStr ''Ann'')]
       example_bugs [])) = []"
  by code_simp

subsection \<open>Claim C3\<close>

text \<open>
  C3 at a failing request. The feature FEAT-1 stores the tags \<^verbatim>\<open>["ui"]\<close>.
  \<^verbatim>\<open>PUT /api/features/FEAT-1\<close> submits the same tags: the handler compares the stored text
  with the submitted array by \<^verbatim>\<open>!==\<close>, finds them different and appends a history row,
  with the action \<^verbatim>\<open>Field Updated\<close>; the stored tags are the same before and after. The
  claim has no row for a field submitted with its stored value.
\<close>

theorem put_feature_unchanged_tags_logged:
  "column_values ''tags'' example_features = [JStr ''[\"ui\"]'']
   \<and> JSON_stringify (JArr [JStr ''ui'']) = JStr ''[\"ui\"]''
   \<and> reply_status (fst (put_feature ''2024-11-01 10:00:00'' ''FEAT-1''
         [(''tags'', JArr [JStr ''ui'']), (''changed_by_name'', JStr ''Ann'')] example_features [])) = 200
   \<and> column_values ''tags'' (fst (snd (put_feature ''2024-11-01 10:00:00'' ''FEAT-1''
         [(''tags'', JArr [JStr ''ui'']), (''changed_by_name'', JStr ''Ann'')] example_features [])))
      = [JStr ''[\"ui\"]'']
   \<and> snd (snd (put_feature ''2024-11-01 10:00:00'' ''FEAT-1''
         [(''tags'', JArr [JStr ''ui'']), (''changed_by_name'', JStr ''Ann'')] example_features []))
      = [\<lparr> entity_id = ''FEAT-1'', action = ''Field Updated'', field_name = JStr ''tags'',
           old_value = JStr ''[\"ui\"]'', new_value = JStr ''ui'', changed_by_id = JNull,
           changed_by_name = JStr ''Ann'', changed_at = ''2024-11-01 10:00:00'' \<rparr>]"
  by code_simp

section \<open>Deleting users\<close>

subsection \<open>The handler of \<^verbatim>\<open>server.js\<close>\<close>

text \<open>
  \<^verbatim>\<open>DELETE /api/users/:id\<close> of \<^verbatim>\<open>server.js\<close> refuses to delete an admin when no other user
  is an admin, and writes nothing; with another admin in the table the deletion goes
  through.
\<close>

lemma delete_user_last_admin:
  assumes "find (\<lambda>u. sql_eq (u ''id'') (JStr uid)) us = Some user"
    and "user ''role'' = JStr ''admin''"
    and "\<forall>u \<in> set us. sql_eq (u ''role'') (JStr ''admin'') \<longrightarrow> \<not> sql_neq (u ''id'') (JStr uid)"
  shows "delete_user uid us = (Reply 400 ''Cannot delete the last admin user'', us)"
proof -
  from assms(3) have "filter (\<lambda>u. sql_eq (u ''role'') (JStr ''admin'') \<and> sql_neq (u ''id'') (JStr uid)) us = []"
    by (simp add: filter_empty_conv)
  with assms(1,2) show ?thesis by (simp add: delete_user_def)
qed

lemma delete_user_other_admin:
  assumes "find (\<lambda>u. sql_eq (u ''id'') (JStr uid)) us = Some user"
    and "\<exists>u \<in> set us. sql_eq (u ''role'') (JStr ''admin'') \<and> sql_neq (u ''id'') (JStr uid)"
  shows "delete_user uid us =
           (Reply 200 ''User deleted successfully'', filter (\<lambda>u. \<not> sql_eq (u ''id'') (JStr uid)) us)"
proof -
  from assms(2) have "filter (\<lambda>u. sql_eq (u ''role'') (JStr ''admin'') \<and> sql_neq (u ''id'') (JStr uid)) us \<noteq> []"
    by (simp add: filter_empty_conv)
  with assms(1) show ?thesis by (simp add: delete_user_def)
qed

lemma delete_user_not_found:
  assumes "find (\<lambda>u. sql_eq (u ''id'') (JStr uid)) us = None"
  shows "delete_user uid us = (Reply 404 ''User not found'', us)"
  using assms by (simp add: delete_user_def)

lemma delete_user_last_admin_seeded:
  "reply_status (fst (delete_user ''admin-001'' seeded_users)) = 400
   \<and> reply_text (fst (delete_user ''admin-001'' seeded_users)) = ''Cannot delete the last admin user''
   \<and> column_values ''id'' (snd (delete_user ''admin-001'' seeded_users)) = [JStr ''admin-001'', JStr ''tester-001'']"
  by code_simp

text \<open>\<^verbatim>\<open>router.delete('/:id')\<close> of \<^verbatim>\<open>users.ts\<close> keeps the row and clears \<^verbatim>\<open>is_active\<close>.\<close>

lemma users_ts_keeps_row:
  "column_values ''id'' (snd (users_ts_delete 2 ts_users)) = [JNum 1, JNum 2]
   \<and> column_values ''is_active'' (reply_rows (users_ts_get 2 (snd (users_ts_delete 2 ts_users)))) = [JNum 0]"
  by code_simp

subsection \<open>Claim C6\<close>

text \<open>
  C6 at a failing request. In the table of \<^verbatim>\<open>users.ts\<close> user 1 is the only admin.
  \<^verbatim>\<open>router.delete('/:id')\<close> for user 1 answers with success and sets \<^verbatim>\<open>is_active\<close> to 0 on the
  row: the router counts no admins. The claim has the request rejected and the row
  unchanged.
\<close>

theorem users_ts_delete_sole_admin:
  "column_values ''role'' ts_users = [JStr ''admin'', JStr ''tester'']
   \<and> column_values ''is_active'' ts_users = [JNum 1, JNum 1]
   \<and> reply_status (fst (users_ts_delete 1 ts_users)) = 200
   \<and> reply_text (fst (users_ts_delete 1 ts_users)) = ''User deactivated successfully''
   \<and> column_values ''is_active'' (snd (users_ts_delete 1 ts_users)) = [JNum 0, JNum 1]"
  by code_simp

subsection \<open>Claim C7\<close>

text \<open>
  C7 at a failing request. \<^verbatim>\<open>DELETE /api/users/tester-001\<close> of \<^verbatim>\<open>server.js\<close>, for a tester:
  the handler runs \<^verbatim>\<open>DELETE FROM users\<close>, the row is gone from the table and a following
  \<^verbatim>\<open>GET /api/users/tester-001\<close> answers 404. The claim has the row kept and sent.
\<close>

theorem delete_user_removes_row:
  "column_values ''id'' seeded_users = [JStr ''admin-001'', JStr ''tester-001'']
   \<and> reply_status (fst (delete_user ''tester-001'' seeded_users)) = 200
   \<and> reply_text (fst (delete_user ''tester-001'' seeded_users)) = ''User deleted successfully''
   \<and> column_values ''id'' (snd (delete_user ''tester-001'' seeded_users)) = [JStr ''admin-001'']
   \<and> reply_status (get_user ''tester-001'' (snd (delete_user ''tester-001'' seeded_users))) = 404
   \<and> reply_rows (get_user ''tester-001'' (snd (delete_user ''tester-001'' seeded_users))) = []"
  by code_simp

section \<open>Statistics\<close>

subsection \<open>Claim C8\<close>

text \<open>
  C8 at failing rows. \<^verbatim>\<open>GET /api/statistics\<close> folds the case of a status but does not trim
  it: of the stored statuses \<^verbatim>\<open>Pass\<close>, \<^verbatim>\<open>PASS\<close> and \<^verbatim>\<open>pass \<close> (with a space at its end) the
  first two are counted under \<^verbatim>\<open>Pass\<close> and the third in a bucket of its own, where the
  claim has one bucket. \<^verbatim>\<open>GET /api/versions/:version_id/statistics\<close> trims and counts the
  three together; it trims, but does not fold the case of, a status outside its list, so
  \<^verbatim>\<open>Skipped\<close> and \<^verbatim>\<open>skipped\<close> are two buckets.
\<close>

theorem testsByStatus_untrimmed:
  "column_values ''status'' legacy_results = [JStr ''Pass'', JStr ''PASS'', JStr ''pass '']
   \<and> testsByStatus legacy_results = [(JStr ''Pass'', 2), (JStr ''pass '', 1)]
   \<and> version_testsByStatus ''VER_1_2_0'' legacy_results example_sessions = [(JStr ''Pass'', 3)]
   \<and> column_values ''status'' skipped_results = [JStr ''Skipped'', JStr ''skipped'']
   \<and> version_testsByStatus ''VER_1_2_0'' skipped_results example_sessions
      = [(JStr ''Skipped'', 1), (JStr ''skipped'', 1)]"
  by code_simp

section \<open>Updates with no field\<close>

subsection \<open>The handlers that check\<close>

text \<open>
  \<^verbatim>\<open>PUT /api/users/:id\<close> and \<^verbatim>\<open>PUT /api/versions/:version_id\<close> answer 400
  \<^verbatim>\<open>No fields to update\<close> and write nothing when no field remains.
\<close>

lemma put_user_no_fields:
  assumes "user_set_list updates = []"
  shows "put_user now uid updates us = (Reply 400 ''No fields to update'', us)"
proof -
  from assms have "\<forall>kv \<in> set updates. fst kv = ''id'' \<or> fst kv = ''created_at''"
    by (auto simp: user_set_list_def filter_empty_conv)
  then have "\<not> (\<exists>kv \<in> set updates. fst kv = ''email'' \<and> \<not> is_string (snd kv))"
    by auto
  with assms show ?thesis by (simp add: put_user_def)
qed

lemma put_version_no_fields:
  assumes "version_set_list updates = []"
  shows "put_version now version_id updates vs = (Reply 400 ''No fields to update'', vs)"
proof -
  from assms have k: "\<forall>kv \<in> set updates. fst kv = ''version_id'' \<or> fst kv = ''id'' \<or> fst kv = ''created_at''"
    by (auto simp: version_set_list_def filter_empty_conv)
  have "map_of updates ''is_current'' = None"
  proof (rule ccontr)
    assume "map_of updates ''is_current'' \<noteq> None"
    then obtain v where "map_of updates ''is_current'' = Some v" by blast
    then have "(''is_current'', v) \<in> set updates" by (rule map_of_SomeD)
    with k show False by force
  qed
  then have "get_prop updates ''is_current'' = JUndefined" by (simp add: get_prop_def)
  with assms show ?thesis by (simp add: put_version_def)
qed

lemma empty_updates_no_fields:
  "user_set_list [] = [] \<and> user_set_list [(''id'', v), (''created_at'', w)] = []
   \<and> version_set_list [] = [] \<and> version_set_list [(''version_id'', u), (''id'', v), (''created_at'', w)] = []"
  by (simp add: user_set_list_def version_set_list_def)

subsection \<open>Claim C9\<close>

text \<open>
  C9 at a failing request. \<^verbatim>\<open>PUT /api/custom-tests/CT_1\<close> with the empty body \<^verbatim>\<open>{}\<close>: no
  field remains, the handler still runs
  \<^verbatim>\<open>UPDATE custom_tests SET updated_at = CURRENT_TIMESTAMP WHERE test_id = ?\<close>, the row gets
  a new \<^verbatim>\<open>updated_at\<close> and the answer is success; likewise for a body of \<^verbatim>\<open>id\<close> and
  \<^verbatim>\<open>created_at\<close> only. The claim has a "no fields to update" answer and no write.
\<close>

theorem put_custom_test_empty_body_writes:
  "column_values ''test_id'' example_tests = [JStr ''CT_1'']
   \<and> column_values ''updated_at'' example_tests = [JStr ''2024-10-01 00:00:00'']
   \<and> custom_test_set_list [] = []
   \<and> reply_status (fst (put_custom_test ''2024-11-01 10:00:00'' ''CT_1'' [] example_tests)) = 200
   \<and> reply_text (fst (put_custom_test ''2024-11-01 10:00:00'' ''CT_1'' [] example_tests))
      = ''Custom test updated successfully''
   \<and> column_values ''updated_at'' (snd (put_custom_test ''2024-11-01 10:00:00'' ''CT_1'' [] example_tests))
      = [JStr ''2024-11-01 10:00:00'']
   \<and> custom_test_set_list [(''id'', JNum 7), (''created_at'', JStr ''2020-01-01'')] = []
   \<and> reply_status (fst (put_custom_test ''2024-11-01 10:00:00'' ''CT_1''
         [(''id'', JNum 7), (''created_at'', JStr ''2020-01-01'')] example_tests)) = 200"
  by code_simp

end
